theory Spec2Isabelle
  imports Complex_Main "HOL-Library.Word"
begin

section \<open>Python values and failures\<close>

text \<open>
  The readers of \<^verbatim>\<open>ipfx/nwb_reader.py\<close> are embedded as pure functions from a
  model of the file to a result.  Every \<^verbatim>\<open>raise\<close>, failed \<^verbatim>\<open>assert\<close>, failed lookup and
  read of an unbound local variable is a value \<open>Inl e\<close>; a normal return is \<open>Inr v\<close>.
  The message of a \<^verbatim>\<open>ValueError\<close> is the source's template, with its \<^verbatim>\<open>{}\<close> placeholders
  left unfilled.  Floating-point samples are modelled as real numbers, so that
  multiplication is exact; text read from the file is a \<open>string\<close> (the distinction
  between \<^verbatim>\<open>bytes\<close> and \<^verbatim>\<open>str\<close> is not modelled, \<^verbatim>\<open>decode\<close> is the identity).
\<close>

datatype error =
    KeyError
  | IndexError
  | TypeError
  | AttributeError
  | UnboundLocalError
  | JSONDecodeError
  | AssertionError string
  | ValueError string

fun bindE :: "error + 'a \<Rightarrow> ('a \<Rightarrow> error + 'b) \<Rightarrow> error + 'b" where
  "bindE (Inl e) k = Inl e"
| "bindE (Inr x) k = k x"

text \<open>\<^verbatim>\<open>d[name]\<close> on a dictionary or an HDF5 group whose members are listed by name.\<close>

definition getitem :: "(string \<times> 'a) list \<Rightarrow> string \<Rightarrow> error + 'a" where
  "getitem members name = (case map_of members name of None \<Rightarrow> Inl KeyError | Some v \<Rightarrow> Inr v)"

subsection \<open>Strings\<close>

text \<open>\<^verbatim>\<open>s.startswith(p)\<close>, and \<^verbatim>\<open>re.match\<close> for the two literal patterns of the source
  (\<^verbatim>\<open>"NWB-1"\<close> and \<^verbatim>\<open>"^2"\<close>), which match exactly the strings starting with the literal.\<close>

definition startswith :: "string \<Rightarrow> string \<Rightarrow> bool" where
  "startswith s p = (take (length p) s = p)"

text \<open>\<^verbatim>\<open>needle in hay\<close> for two strings: \<open>needle\<close> occurs in \<open>hay\<close> as a substring.\<close>

fun str_contains :: "string \<Rightarrow> string \<Rightarrow> bool" where
  "str_contains [] needle = (needle = [])"
| "str_contains (c # cs) needle = (startswith (c # cs) needle \<or> str_contains cs needle)"

text \<open>\<^verbatim>\<open>s.split(sep)\<close> for a separator of one character.\<close>

fun py_split :: "char \<Rightarrow> string \<Rightarrow> string list" where
  "py_split sep [] = [[]]"
| "py_split sep (c # cs) =
     (if c = sep then [] # py_split sep cs
      else (case py_split sep cs of [] \<Rightarrow> [[c]] | t # ts \<Rightarrow> (c # t) # ts))"

text \<open>\<^verbatim>\<open>'%d' % n\<close> and \<^verbatim>\<open>'%05d' % n\<close>.\<close>

fun digits_of :: "nat \<Rightarrow> string" where
  "digits_of n =
     (if n < 10 then [''0123456789'' ! n]
      else digits_of (n div 10) @ [''0123456789'' ! (n mod 10)])"

definition fmt_d :: "int \<Rightarrow> string" where
  "fmt_d n = (if n < 0 then ''-'' @ digits_of (nat (- n)) else digits_of (nat n))"

definition fmt_05d :: "int \<Rightarrow> string" where
  "fmt_05d n =
     (let sgn = (if n < 0 then ''-'' else '''');
          ds = digits_of (nat \<bar>n\<bar>)
      in sgn @ replicate (5 - length sgn - length ds) CHR ''0'' @ ds)"

text \<open>\<^verbatim>\<open>int(s)\<close> for a string, whose characters are the code points below 256:
  surrounding white space (tab, line feed, vertical tab, form feed, carriage return,
  space, and the code points 133 and 160) is dropped, then an optional sign and decimal
  digits, where single underscores may stand between digits.  A literal of more than
  4300 digits is refused (the default of \<^verbatim>\<open>sys.get_int_max_str_digits()\<close>).  \<open>None\<close>
  is Python's \<^verbatim>\<open>ValueError\<close>.\<close>

definition is_space :: "char \<Rightarrow> bool" where
  "is_space c = (of_char c \<in> {9, 10, 11, 12, 13, 32, 133, 160 :: nat})"

definition is_digit :: "char \<Rightarrow> bool" where
  "is_digit c = (48 \<le> (of_char c :: nat) \<and> (of_char c :: nat) \<le> 57)"

definition digit_val :: "char \<Rightarrow> nat" where
  "digit_val c = of_char c - 48"

definition strip :: "string \<Rightarrow> string" where
  "strip s = rev (dropWhile is_space (rev (dropWhile is_space s)))"

fun parse_digits :: "nat \<Rightarrow> string \<Rightarrow> nat option" where
  "parse_digits acc [] = Some acc"
| "parse_digits acc [c] = (if is_digit c then Some (10 * acc + digit_val c) else None)"
| "parse_digits acc (c # d # cs) =
     (if is_digit c then parse_digits (10 * acc + digit_val c) (d # cs)
      else if c = CHR ''_'' \<and> is_digit d then parse_digits acc (d # cs)
      else None)"

definition unsigned_int :: "string \<Rightarrow> nat option" where
  "unsigned_int s =
     (case s of [] \<Rightarrow> None | c # cs \<Rightarrow> if is_digit c then parse_digits 0 s else None)"

definition py_int :: "string \<Rightarrow> error + int" where
  "py_int s =
     (let t = strip s;
          r = (case t of
                 [] \<Rightarrow> None
               | c # cs \<Rightarrow>
                   if length (filter is_digit t) > 4300 then None
                   else if c = CHR ''-'' then map_option (\<lambda>n. - int n) (unsigned_int cs)
                   else if c = CHR ''+'' then map_option int (unsigned_int cs)
                   else map_option int (unsigned_int t))
      in case r of None \<Rightarrow> Inl (ValueError ''invalid literal for int() with base 10'')
                 | Some n \<Rightarrow> Inr n)"

section \<open>The file, as the readers see it\<close>

text \<open>
  The readers go through \<^verbatim>\<open>h5py\<close> (NWB 1) and \<^verbatim>\<open>pynwb\<close> (NWB 2), which are not part of
  the repository.  The file is modelled by the entries the readers visit, typed as the
  NWB layout stores them: sample arrays are one-dimensional arrays of floats, start
  indices and counts are integer scalars of a fixed width, rates and conversion
  factors are floats.  An entry
  is optional in the model exactly where the source tests for it (\<^verbatim>\<open>in\<close>), catches its
  absence (\<^verbatim>\<open>except KeyError\<close>) or looks it up under a name computed at run time.
\<close>

text \<open>
  An integer scalar as \<^verbatim>\<open>.value\<close> reads it from a dataset: a \<^verbatim>\<open>numpy\<close> signed integer of
  32 or 64 bits.  \<open>np_val\<close> is its value.  \<^verbatim>\<open>a + b\<close> on two such scalars is computed in
  the wider of the two types and \<^verbatim>\<open>a - 1\<close> in the type of \<open>a\<close>, both with wrap-around.
\<close>

datatype np_int = Int32 "32 word" | Int64 "64 word"

fun np_val :: "np_int \<Rightarrow> int" where
  "np_val (Int32 x) = sint x"
| "np_val (Int64 x) = sint x"

fun np_bits :: "np_int \<Rightarrow> nat" where
  "np_bits (Int32 x) = 32"
| "np_bits (Int64 x) = 64"

fun np_add :: "np_int \<Rightarrow> np_int \<Rightarrow> np_int" where
  "np_add (Int32 x) (Int32 y) = Int32 (x + y)"
| "np_add (Int32 x) (Int64 y) = Int64 (scast x + y)"
| "np_add (Int64 x) (Int32 y) = Int64 (x + scast y)"
| "np_add (Int64 x) (Int64 y) = Int64 (x + y)"

fun np_sub1 :: "np_int \<Rightarrow> np_int" where
  "np_sub1 (Int32 x) = Int32 (x - 1)"
| "np_sub1 (Int64 x) = Int64 (x - 1)"

text \<open>A text value read by \<^verbatim>\<open>h5py\<close>: a scalar, or a \<^verbatim>\<open>numpy.ndarray\<close> of strings.\<close>

datatype h5text = ScalarStr string | StrArray "string list"

text \<open>\<^verbatim>\<open>raw[0] if isinstance(raw, np.ndarray) else raw\<close>; indexing an empty array raises.\<close>

definition first_if_array :: "h5text \<Rightarrow> error + string" where
  "first_if_array raw =
     (case raw of
        StrArray xs \<Rightarrow> (case xs of [] \<Rightarrow> Inl IndexError | x # _ \<Rightarrow> Inr x)
      | ScalarStr s \<Rightarrow> Inr s)"

text \<open>\<^verbatim>\<open>name in v\<close>: substring of a string, membership in an array.\<close>

definition py_in :: "string \<Rightarrow> h5text \<Rightarrow> bool" where
  "py_in name v =
     (case v of ScalarStr s \<Rightarrow> str_contains s name | StrArray xs \<Rightarrow> name \<in> set xs)"

text \<open>
  The value of an HDF5 attribute as \<^verbatim>\<open>f.attrs[name]\<close> returns it.  \<^verbatim>\<open>h5py\<close> returns a
  plain value (\<open>AttrStr\<close>: a \<^verbatim>\<open>str\<close>), which has no member \<^verbatim>\<open>value\<close>; \<open>AttrObj v\<close> stands for
  an object that has one, \<open>v\<close> being \<open>None\<close> for Python's \<^verbatim>\<open>None\<close>.
\<close>

datatype h5attr = AttrStr string | AttrObj "string option"


text \<open>A \<^verbatim>\<open>data\<close> dataset of a time series: \<^verbatim>\<open>.value\<close>, \<^verbatim>\<open>.attrs["conversion"]\<close> and the
  optional \<^verbatim>\<open>.attrs["unit"]\<close>.\<close>

record h5_dataset =
  dvalue :: "real list"
  attrs_conversion :: real
  attrs_unit :: "string option"

text \<open>\<^verbatim>\<open>timeseries\<close> under an epoch's stimulus or response: \<^verbatim>\<open>["data"]\<close> and
  \<^verbatim>\<open>["starting_time"].attrs["rate"]\<close>.\<close>

record h5_timeseries =
  ts_data :: h5_dataset
  starting_time_rate :: real

text \<open>\<^verbatim>\<open>epoch["stimulus"]\<close> or \<^verbatim>\<open>epoch["response"]\<close>: \<^verbatim>\<open>idx_start\<close>, \<^verbatim>\<open>count\<close>, \<^verbatim>\<open>timeseries\<close>.\<close>

record epoch_part =
  idx_start :: np_int
  count :: np_int
  timeseries :: h5_timeseries

text \<open>A member of \<^verbatim>\<open>f["epochs"]\<close> (\<^verbatim>\<open>Sweep_<n>\<close> or \<^verbatim>\<open>Experiment_<n>\<close>).\<close>

record epoch =
  ep_stimulus :: epoch_part
  ep_response :: epoch_part

text \<open>A member of \<^verbatim>\<open>f["acquisition/timeseries"]\<close>: its \<^verbatim>\<open>data\<close>, the rate of its
  \<^verbatim>\<open>starting_time\<close>, its attribute \<^verbatim>\<open>ancestry\<close>, and its further members that hold text
  (where the stimulus description is looked for).\<close>

record sweep_ts =
  sw_data :: h5_dataset
  sw_rate :: real
  ancestry :: h5text
  text_members :: "(string \<times> h5text) list"

text \<open>\<^verbatim>\<open>f["general"]\<close>, with its optional member \<^verbatim>\<open>generated_by\<close>: a flat array of text,
  keys and values alternating.\<close>

record general_group =
  generated_by :: "string list option"

record nwb_file =
  nwb_version :: "h5text option"
  attrs_nwb_version :: "h5attr option"
  general :: "general_group option"
  epochs :: "(string \<times> epoch) list"
  acquisition_timeseries :: "(string \<times> sweep_ts) list"
  stimulus_presentation :: "(string \<times> h5_dataset) list"

text \<open>The returned dictionary of \<^verbatim>\<open>get_sweep_data\<close>.\<close>

record sweep_data =
  stimulus :: "real list"
  response :: "real list"
  stimulus_unit :: string
  index_range :: "int \<times> int"
  sampling_rate :: real

section \<open>Module-level functions\<close>

definition get_long_unit_name :: "string \<Rightarrow> error + string" where
  "get_long_unit_name unit =
     (if startswith unit ''A'' then Inr ''Amps''
      else if startswith unit ''V'' then Inr ''Volts''
      else Inl (ValueError ''Unit {} not recognized from TimeSeries''))"



section \<open>NwbReader.get_pipeline_version\<close>

text \<open>The scan \<^verbatim>\<open>for i in range(len(info)): if info[i] == 'version': version = info[i+1]; break\<close>.
  The result is the binding of \<^verbatim>\<open>version\<close> after the loop (\<open>None\<close>: still unbound);
  \<^verbatim>\<open>info[i+1]\<close> past the end raises.\<close>

fun scan_version :: "string list \<Rightarrow> error + string option" where
  "scan_version [] = Inr None"
| "scan_version (k # rest) =
     (if k = ''version'' then (case rest of [] \<Rightarrow> Inl IndexError | v # _ \<Rightarrow> Inr (Some v))
      else scan_version rest)"

text \<open>The body of the \<^verbatim>\<open>try\<close>.  Its result is the binding of \<^verbatim>\<open>(major, minor)\<close> when the
  body ends without an exception: \<open>None\<close> when neither assignment was reached.\<close>

definition version_try_body :: "nwb_file \<Rightarrow> error + (int \<times> int) option" where
  "version_try_body f =
     bindE (case general f of None \<Rightarrow> Inl KeyError | Some g \<Rightarrow> Inr g) (\<lambda>g.
     bindE (case generated_by g of None \<Rightarrow> Inr None | Some info \<Rightarrow> scan_version info) (\<lambda>version.
     case version of
       None \<Rightarrow> Inl UnboundLocalError
     | Some v \<Rightarrow>
         (let toks = py_split CHR ''.'' v in
          if length toks \<ge> 2 then
            bindE (py_int (toks ! 0)) (\<lambda>major.
            bindE (py_int (toks ! 1)) (\<lambda>minor.
            Inr (Some (major, minor))))
          else Inr None)))"

text \<open>\<^verbatim>\<open>except: minor = 0; major = 0\<close>, then \<^verbatim>\<open>return major, minor\<close>, which reads the two
  variables.\<close>

definition get_pipeline_version :: "nwb_file \<Rightarrow> error + int \<times> int" where
  "get_pipeline_version f =
     (case version_try_body f of
        Inl e \<Rightarrow> Inr (0, 0)
      | Inr None \<Rightarrow> Inl UnboundLocalError
      | Inr (Some (major, minor)) \<Rightarrow> Inr (major, minor))"

section \<open>NwbPipelineReader\<close>

text \<open>\<^verbatim>\<open>a *= t\<close> for a one-dimensional array \<open>a\<close> and a tuple \<open>t\<close> of floats, as \<^verbatim>\<open>numpy\<close>
  broadcasts it: a tuple of one element multiplies every sample.\<close>

definition np_imul :: "real list \<Rightarrow> real list \<Rightarrow> error + real list" where
  "np_imul a t =
     (if length t = 1 then Inr (map (\<lambda>x. x * hd t) a)
      else if length t = length a then Inr (map2 (*) a t)
      else Inl (ValueError ''operands could not be broadcast together''))"

definition pipeline_get_sweep_data :: "nwb_file \<Rightarrow> int \<Rightarrow> error + sweep_data" where
  "pipeline_get_sweep_data f sweep_number =
     bindE (getitem (epochs f) (''Sweep_'' @ fmt_d sweep_number)) (\<lambda>swp.
     let stimulus_dataset = ts_data (timeseries (ep_stimulus swp));
         stimulus_conversion = attrs_conversion stimulus_dataset;
         response_dataset = ts_data (timeseries (ep_response swp));
         response_conversion = attrs_conversion response_dataset
     in
     bindE (get_pipeline_version f) (\<lambda>(major, minor).
     let (stimulus0, response0) =
           (if (major = 1 \<and> minor > 0) \<or> major > 1
            then (map (\<lambda>x. x * stimulus_conversion) (dvalue stimulus_dataset),
                  map (\<lambda>x. x * response_conversion) (dvalue response_dataset))
            else (dvalue stimulus_dataset, dvalue response_dataset))
     in
     bindE (case attrs_unit stimulus_dataset of
              Some unit \<Rightarrow> get_long_unit_name unit
            | None \<Rightarrow> Inr ''Unknown'') (\<lambda>unit_str.
     bindE (if unit_str = ''Amps'' then
              bindE (np_imul response0 [1000]) (\<lambda>response1.
              bindE (np_imul stimulus0 [1000000000000]) (\<lambda>stimulus1.
              Inr (stimulus1, response1)))
            else if unit_str = ''Volts'' then
              bindE (np_imul response0 [1000000000000]) (\<lambda>response1.
              bindE (np_imul stimulus0 [1000]) (\<lambda>stimulus1.
              Inr (stimulus1, response1)))
            else Inl (ValueError ''Unknown stimulus unit'')) (\<lambda>(stimulus1, response1).
     let swp_idx_start = idx_start (ep_stimulus swp);
         swp_length = count (ep_stimulus swp);
         swp_idx_stop = np_sub1 (np_add swp_idx_start swp_length);
         sweep_index_range = (swp_idx_start, swp_idx_stop);
         index_range1 =
           (case getitem (epochs f) (''Experiment_'' @ fmt_d sweep_number) of
              Inr expt \<Rightarrow>
                (let exp_idx_start = idx_start (ep_stimulus expt);
                     exp_length = count (ep_stimulus expt);
                     exp_idx_stop = np_sub1 (np_add exp_idx_start exp_length)
                 in (exp_idx_start, exp_idx_stop))
            | Inl e \<Rightarrow> sweep_index_range)
     in
     if np_val (fst sweep_index_range) = 0 then
       Inr \<lparr>stimulus = stimulus1,
            response = response1,
            stimulus_unit = unit_str,
            index_range = (np_val (fst index_range1), np_val (snd index_range1)),
            sampling_rate = 1 * starting_time_rate (timeseries (ep_stimulus swp))\<rparr>
     else Inl (AssertionError ''index range of the full sweep does not start at 0.'')))))"

definition pipeline_get_stim_code :: "nwb_file \<Rightarrow> string \<Rightarrow> error + string" where
  "pipeline_get_stim_code f sweep_name =
     (let stimulus_description = ''aibs_stimulus_description'' in
      bindE (getitem (acquisition_timeseries f) sweep_name) (\<lambda>sweep_ts.
      bindE (case map_of (text_members sweep_ts) stimulus_description of
               Some stim_code_raw \<Rightarrow>
                 bindE (first_if_array stim_code_raw) (\<lambda>stim_code.
                 Inr (Some (if drop (length stim_code - 5) stim_code = ''_DA_0''
                            then take (length stim_code - 5) stim_code
                            else stim_code)))
             | None \<Rightarrow> Inr None) (\<lambda>stim_code.
      case stim_code of None \<Rightarrow> Inl UnboundLocalError | Some c \<Rightarrow> Inr c)))"

section \<open>NwbMiesReader\<close>

text \<open>\<^verbatim>\<open>ipfx.stim_features\<close> is not among the sources: its two routines
  \<^verbatim>\<open>get_experiment_epoch(stimulus, response, hz)\<close> and \<^verbatim>\<open>get_sweep_epoch(response)\<close> are
  parameters of the reader, and may fail.\<close>

definition mies_get_sweep_data ::
  "(real list \<Rightarrow> real list \<Rightarrow> real \<Rightarrow> error + int \<times> int) \<Rightarrow> (real list \<Rightarrow> error + int \<times> int) \<Rightarrow>
   nwb_file \<Rightarrow> int \<Rightarrow> error + sweep_data" where
  "mies_get_sweep_data get_experiment_epoch get_sweep_epoch f sweep_number =
     bindE (getitem (acquisition_timeseries f) (''data_'' @ fmt_05d sweep_number @ ''_AD0'')) (\<lambda>sweep_response.
     let response1 = dvalue (sw_data sweep_response);
         hz = 1 * sw_rate sweep_response
     in
     bindE (getitem (stimulus_presentation f) (''data_'' @ fmt_05d sweep_number @ ''_DA0'')) (\<lambda>sweep_stimulus.
     let stimulus1 = dvalue sweep_stimulus in
     bindE (case attrs_unit sweep_stimulus of
              Some unit \<Rightarrow>
                if startswith unit ''A'' then Inr ''Amps''
                else if startswith unit ''V'' then Inr ''Volts''
                else Inl (AssertionError ''Stimulus time series unit not recognized'')
            | None \<Rightarrow> Inr ''Unknown'') (\<lambda>unit_str.
     bindE (if py_in ''CurrentClampSeries'' (ancestry sweep_response)
            then get_experiment_epoch stimulus1 response1 hz
            else if py_in ''VoltageClampSeries'' (ancestry sweep_response)
            then get_sweep_epoch response1
            else Inl (ValueError ''Unknown Clamp Mode'')) (\<lambda>index_range1.
     Inr \<lparr>stimulus = stimulus1,
          response = response1,
          stimulus_unit = unit_str,
          index_range = index_range1,
          sampling_rate = hz\<rparr>))))"

definition mies_get_stim_code :: "nwb_file \<Rightarrow> string \<Rightarrow> error + string" where
  "mies_get_stim_code f sweep_name =
     (let stimulus_description = ''stimulus_description'' in
      bindE (getitem (acquisition_timeseries f) sweep_name) (\<lambda>sweep_ts.
      bindE (case map_of (text_members sweep_ts) stimulus_description of
               Some stim_code_raw \<Rightarrow>
                 bindE (first_if_array stim_code_raw) (\<lambda>stim_code.
                 Inr (Some (if drop (length stim_code - 5) stim_code = ''_DA_0''
                            then take (length stim_code - 5) stim_code
                            else stim_code)))
             | None \<Rightarrow> Inr None) (\<lambda>stim_code.
      case stim_code of None \<Rightarrow> Inl UnboundLocalError | Some c \<Rightarrow> Inr c)))"

section \<open>NwbXReader\<close>

text \<open>
  \<^verbatim>\<open>pynwb\<close> hands the reader typed objects.  A series has its class (the five classes
  the source names, or another), its \<^verbatim>\<open>data\<close>, \<^verbatim>\<open>conversion\<close>, \<^verbatim>\<open>unit\<close>, its \<^verbatim>\<open>rate\<close> (Python's
  \<^verbatim>\<open>None\<close> when the series has time stamps instead), and its \<^verbatim>\<open>description\<close>:  \<open>None\<close> when
  the text is not JSON (\<^verbatim>\<open>json.loads\<close> raises), else the JSON object as a dictionary with
  integer entries.  \<^verbatim>\<open>IZeroClampSeries\<close> is a subclass of \<^verbatim>\<open>CurrentClampSeries\<close>; no
  stimulus class is a subclass of a response class.
\<close>

datatype series_kind =
    VoltageClampSeries
  | CurrentClampSeries
  | IZeroClampSeries
  | VoltageClampStimulusSeries
  | CurrentClampStimulusSeries
  | OtherTimeSeries

record nwb_series =
  s_kind :: series_kind
  s_data :: "real list"
  s_conversion :: real
  s_unit :: string
  s_rate :: "real option"
  s_description :: "(string \<times> int) list option"

text \<open>\<^verbatim>\<open>s.num_samples\<close>: the length of the data.\<close>

definition num_samples :: "nwb_series \<Rightarrow> int" where
  "num_samples s = int (length (s_data s))"

record nwbx_file =
  experiment_description :: string
  sweep_table :: "(int \<times> nwb_series) list"

text \<open>\<^verbatim>\<open>nwb.sweep_table.get_series(n)\<close>: the series of the rows whose sweep number is \<open>n\<close>,
  or \<^verbatim>\<open>None\<close> when there is no such row.\<close>

definition get_series :: "(int \<times> nwb_series) list \<Rightarrow> int \<Rightarrow> nwb_series list option" where
  "get_series table n =
     (let matches = map snd (filter (\<lambda>row. fst row = n) table)
      in if matches = [] then None else Some matches)"

record raw_source =
  abf :: bool
  dat :: bool
  unknown :: bool

definition getRawDataSourceType :: "string \<Rightarrow> raw_source" where
  "getRawDataSourceType description =
     (if startswith description ''PatchMaster'' then \<lparr>abf = False, dat = True, unknown = False\<rparr>
      else if startswith description ''Clampex'' then \<lparr>abf = True, dat = False, unknown = False\<rparr>
      else \<lparr>abf = False, dat = False, unknown = True\<rparr>)"

text \<open>The variables bound by a stimulus series: \<^verbatim>\<open>stimulus\<close>, \<^verbatim>\<open>stimulus_unit\<close>,
  \<^verbatim>\<open>stimulus_rate\<close>, \<^verbatim>\<open>stimulus_index_range\<close>.  The state of the loop is the pair of
  \<^verbatim>\<open>response\<close> and these, each \<open>None\<close> until a series binds it.\<close>

type_synonym stimulus_vars = "real list \<times> string \<times> real \<times> (int \<times> int)"

type_synonym loop_state = "real list option \<times> stimulus_vars option"

text \<open>One pass through the body of \<^verbatim>\<open>for s in series\<close>.\<close>

definition series_step :: "raw_source \<Rightarrow> loop_state \<Rightarrow> nwb_series \<Rightarrow> error + loop_state" where
  "series_step rawDataSourceType st s =
     (case st of (response0, stimulus0) \<Rightarrow>
      bindE (if abf rawDataSourceType then
               (case s_description s of
                  None \<Rightarrow> Inl JSONDecodeError
                | Some description \<Rightarrow>
                    bindE (getitem description ''number'') (\<lambda>channel_number.
                    if channel_number \<notin> {1, 5}
                    then Inl (ValueError ''Unexpected channel number {} for TimeSeries {}.'')
                    else Inr (channel_number = 5)))
             else Inr False) (\<lambda>skip.
      if skip then Inr (response0, stimulus0)
      else if s_kind s \<in> {VoltageClampSeries, CurrentClampSeries, IZeroClampSeries} then
        (if response0 \<noteq> None
         then Inl (ValueError ''Found multiple response TimeSeries in NWB file for sweep number {}.'')
         else Inr (Some (map (\<lambda>x. x * s_conversion s) (s_data s)), stimulus0))
      else if s_kind s \<in> {VoltageClampStimulusSeries, CurrentClampStimulusSeries} then
        (if stimulus0 \<noteq> None
         then Inl (ValueError ''Found multiple stimulus TimeSeries in NWB file for sweep number {}.'')
         else
           bindE (get_long_unit_name (s_unit s)) (\<lambda>stimulus_unit.
           bindE (case s_rate s of None \<Rightarrow> Inl TypeError | Some r \<Rightarrow> Inr r) (\<lambda>stimulus_rate.
           Inr (response0,
                Some (map (\<lambda>x. x * s_conversion s) (s_data s), stimulus_unit, stimulus_rate,
                      (0, num_samples s - 1))))))
      else Inl (ValueError ''Unexpected TimeSeries {}.'')))"

fun series_loop :: "raw_source \<Rightarrow> loop_state \<Rightarrow> nwb_series list \<Rightarrow> error + loop_state" where
  "series_loop rawDataSourceType st [] = Inr st"
| "series_loop rawDataSourceType st (s # rest) =
     bindE (series_step rawDataSourceType st s) (\<lambda>st'. series_loop rawDataSourceType st' rest)"

text \<open>The sweep number is an integer, so the test \<^verbatim>\<open>isinstance(sweep_number, (int, np.uint64))\<close>
  at the start of the method holds.\<close>

definition nwbx_get_sweep_data :: "nwbx_file \<Rightarrow> int \<Rightarrow> error + sweep_data" where
  "nwbx_get_sweep_data nwb sweep_number =
     (let rawDataSourceType = getRawDataSourceType (experiment_description nwb) in
      if unknown rawDataSourceType
      then Inl (AssertionError ''Can handle data from this raw data source'')
      else
        (case get_series (sweep_table nwb) sweep_number of
           None \<Rightarrow> Inl (ValueError ''No TimeSeries found for sweep number {}.'')
         | Some series \<Rightarrow>
             bindE (series_loop rawDataSourceType (None, None) series) (\<lambda>(response0, stimulus0).
             case stimulus0 of
               None \<Rightarrow> Inl (ValueError ''Could not find one stimulus TimeSeries for sweep number {}.'')
             | Some (stimulus1, stimulus_unit1, stimulus_rate, stimulus_index_range) \<Rightarrow>
                 (case response0 of
                    None \<Rightarrow> Inl (ValueError ''Could not find one response TimeSeries for sweep number {}.'')
                  | Some response1 \<Rightarrow>
                      if length stimulus1 = length response1 then
                        Inr \<lparr>stimulus = stimulus1,
                             response = response1,
                             stimulus_unit = stimulus_unit1,
                             index_range = stimulus_index_range,
                             sampling_rate = stimulus_rate\<rparr>
                      else Inl (AssertionError ''Stimulus and response have a different length.'')))))"

text \<open>The series the loop does not skip: with an ABF source, those of channel 1 (channel
  5 is skipped, any other channel raises); with a DAT source, all.  A response-bearing
  series is one of the three response classes, a stimulus-bearing series one of the two
  stimulus classes.\<close>

definition retained :: "raw_source \<Rightarrow> nwb_series \<Rightarrow> bool" where
  "retained src s =
     (if abf src
      then (case s_description s of None \<Rightarrow> False | Some d \<Rightarrow> map_of d ''number'' = Some 1)
      else True)"

definition skipped :: "raw_source \<Rightarrow> nwb_series \<Rightarrow> bool" where
  "skipped src s =
     (abf src \<and> (case s_description s of None \<Rightarrow> False | Some d \<Rightarrow> map_of d ''number'' = Some 5))"

definition response_bearing :: "nwb_series \<Rightarrow> bool" where
  "response_bearing s = (s_kind s \<in> {VoltageClampSeries, CurrentClampSeries, IZeroClampSeries})"

definition stimulus_bearing :: "nwb_series \<Rightarrow> bool" where
  "stimulus_bearing s = (s_kind s \<in> {VoltageClampStimulusSeries, CurrentClampStimulusSeries})"

text \<open>The range that the post-processed reader computes from the \<^verbatim>\<open>idx_start\<close> and the
  \<^verbatim>\<open>count\<close> of an epoch, as integers; and the condition that \<open>start + count - 1\<close> is a
  value of the type in which it is computed.\<close>

definition stored_range :: "epoch_part \<Rightarrow> int \<times> int" where
  "stored_range p = (np_val (idx_start p), np_val (np_sub1 (np_add (idx_start p) (count p))))"

definition stop_fits :: "np_int \<Rightarrow> np_int \<Rightarrow> bool" where
  "stop_fits a b =
     (let n = max (np_bits a) (np_bits b) - 1
      in - (2 ^ n) \<le> np_val a + np_val b - 1 \<and> np_val a + np_val b - 1 < 2 ^ n)"

section \<open>Example files\<close>

text \<open>A post-processed NWB 1 file with one sweep, number 7, of three samples, and its
  experiment epoch, which starts after the first sample.  The version string of the
  provenance array is a parameter.\<close>

definition sample_stimulus_data :: h5_dataset where
  "sample_stimulus_data = \<lparr>dvalue = [1, 2, 3], attrs_conversion = 2, attrs_unit = Some ''Amps''\<rparr>"

definition sample_response_data :: h5_dataset where
  "sample_response_data = \<lparr>dvalue = [4, 5, 6], attrs_conversion = 3, attrs_unit = Some ''Volts''\<rparr>"

definition sample_epoch :: "np_int \<Rightarrow> np_int \<Rightarrow> h5_dataset \<Rightarrow> h5_dataset \<Rightarrow> epoch" where
  "sample_epoch start n stim resp =
     \<lparr>ep_stimulus = \<lparr>idx_start = start, count = n,
                      timeseries = \<lparr>ts_data = stim, starting_time_rate = 200000\<rparr>\<rparr>,
      ep_response = \<lparr>idx_start = start, count = n,
                      timeseries = \<lparr>ts_data = resp, starting_time_rate = 200000\<rparr>\<rparr>\<rparr>"

definition sample_sweep_ts :: sweep_ts where
  "sample_sweep_ts =
     \<lparr>sw_data = sample_response_data, sw_rate = 200000,
      ancestry = StrArray [''TimeSeries'', ''PatchClampSeries'', ''CurrentClampSeries''],
      text_members = []\<rparr>"

definition pipeline_file :: "string list option \<Rightarrow> (string \<times> epoch) list \<Rightarrow> nwb_file" where
  "pipeline_file provenance eps =
     \<lparr>nwb_version = Some (ScalarStr ''NWB-1.0.5''),
      attrs_nwb_version = None,
      general = Some \<lparr>generated_by = provenance\<rparr>,
      epochs = eps,
      acquisition_timeseries = [(''Sweep_7'', sample_sweep_ts)],
      stimulus_presentation = []\<rparr>"

definition sample_pipeline_file :: "string \<Rightarrow> nwb_file" where
  "sample_pipeline_file version =
     pipeline_file (Some [''name'', ''pipeline'', ''version'', version])
       [(''Sweep_7'', sample_epoch (Int32 0) (Int32 3) sample_stimulus_data sample_response_data),
        (''Experiment_7'', sample_epoch (Int32 1) (Int32 2) sample_stimulus_data sample_response_data)]"

text \<open>The same sweep without an experiment epoch; with a stimulus in Volts; with no
  unit on the stimulus; with a full sweep that starts at index 1.\<close>

definition no_experiment_file :: nwb_file where
  "no_experiment_file =
     pipeline_file (Some [''version'', ''1.1''])
       [(''Sweep_7'', sample_epoch (Int32 0) (Int32 3) sample_stimulus_data sample_response_data)]"

definition volts_file :: nwb_file where
  "volts_file =
     pipeline_file (Some [''version'', ''1.1''])
       [(''Sweep_7'', sample_epoch (Int32 0) (Int32 3) (sample_stimulus_data\<lparr>attrs_unit := Some ''Volts''\<rparr>)
                        sample_response_data)]"

definition no_unit_file :: nwb_file where
  "no_unit_file =
     pipeline_file (Some [''version'', ''1.1''])
       [(''Sweep_7'', sample_epoch (Int32 0) (Int32 3) (sample_stimulus_data\<lparr>attrs_unit := None\<rparr>)
                        sample_response_data)]"

definition late_start_file :: nwb_file where
  "late_start_file =
     pipeline_file (Some [''version'', ''1.1''])
       [(''Sweep_7'', sample_epoch (Int32 1) (Int32 3) sample_stimulus_data sample_response_data)]"

text \<open>A sweep whose stimulus has two samples and whose response has one.\<close>

definition ragged_file :: nwb_file where
  "ragged_file =
     pipeline_file None
       [(''Sweep_7'', sample_epoch (Int32 0) (Int32 2) (sample_stimulus_data\<lparr>dvalue := [1, 2]\<rparr>)
                        (sample_response_data\<lparr>dvalue := [4]\<rparr>))]"

text \<open>A sweep of three samples whose experiment epoch is recorded as five samples from
  index 2.\<close>

definition long_experiment_file :: nwb_file where
  "long_experiment_file =
     pipeline_file None
       [(''Sweep_7'', sample_epoch (Int32 0) (Int32 3) sample_stimulus_data sample_response_data),
        (''Experiment_7'', sample_epoch (Int32 2) (Int32 5) sample_stimulus_data sample_response_data)]"

text \<open>A sweep of three samples whose experiment epoch is stored as 64-bit integers:
  two samples from the largest index.\<close>

definition overflow_file :: nwb_file where
  "overflow_file =
     pipeline_file None
       [(''Sweep_7'', sample_epoch (Int32 0) (Int32 3) sample_stimulus_data sample_response_data),
        (''Experiment_7'', sample_epoch (Int64 9223372036854775807) (Int64 2)
                             sample_stimulus_data sample_response_data)]"


text \<open>A raw acquisition file with sweep 7; the ancestry of its response is a parameter.
  Two routines stand in for \<^verbatim>\<open>ipfx.stim_features\<close> where an instance is evaluated.\<close>

definition mies_file :: "h5text \<Rightarrow> nwb_file" where
  "mies_file anc =
     \<lparr>nwb_version = Some (ScalarStr ''NWB-1.0.5''),
      attrs_nwb_version = None,
      general = None,
      epochs = [],
      acquisition_timeseries =
        [(''data_00007_AD0'',
          \<lparr>sw_data = sample_response_data, sw_rate = 200000, ancestry = anc,
           text_members = [(''comment'', ScalarStr ''no description'')]\<rparr>)],
      stimulus_presentation = [(''data_00007_DA0'', sample_stimulus_data)]\<rparr>"

definition sample_experiment_epoch :: "real list \<Rightarrow> real list \<Rightarrow> real \<Rightarrow> error + int \<times> int" where
  "sample_experiment_epoch stim resp hz = Inr (1, int (length stim) - 1)"

definition sample_sweep_epoch :: "real list \<Rightarrow> error + int \<times> int" where
  "sample_sweep_epoch resp = Inr (0, int (length resp) - 1)"

text \<open>NWB 2 files converted from ABF, all of whose series belong to sweep 1.\<close>

definition sample_response_series :: nwb_series where
  "sample_response_series =
     \<lparr>s_kind = CurrentClampSeries, s_data = [4, 5, 6], s_conversion = 2, s_unit = ''Volts'',
      s_rate = Some 20000, s_description = Some [(''number'', 1)]\<rparr>"

definition sample_stimulus_series :: nwb_series where
  "sample_stimulus_series =
     \<lparr>s_kind = CurrentClampStimulusSeries, s_data = [1, 2, 3], s_conversion = 3, s_unit = ''Amps'',
      s_rate = Some 20000, s_description = Some [(''number'', 1)]\<rparr>"

definition feedback_series :: nwb_series where
  "feedback_series = sample_response_series\<lparr>s_description := Some [(''number'', 5)]\<rparr>"

definition other_series :: nwb_series where
  "other_series = sample_response_series\<lparr>s_kind := OtherTimeSeries\<rparr>"

definition clampex_file :: "nwb_series list \<Rightarrow> nwbx_file" where
  "clampex_file ss = \<lparr>experiment_description = ''Clampex 10.7'', sweep_table = map (Pair 1) ss\<rparr>"

text \<open>A sweep whose two series hold no samples.\<close>

definition empty_series_file :: nwbx_file where
  "empty_series_file =
     clampex_file [sample_response_series\<lparr>s_data := []\<rparr>, sample_stimulus_series\<lparr>s_data := []\<rparr>]"

section \<open>Basic facts\<close>

declare digits_of.simps [simp del]

lemma bindE_Inr_iff: "bindE m k = Inr y \<longleftrightarrow> (\<exists>x. m = Inr x \<and> k x = Inr y)"
  by (cases m) auto

lemma bindE_Inr_D: "bindE m k = Inr y \<Longrightarrow> \<exists>x. m = Inr x \<and> k x = Inr y"
  by (cases m) auto

text \<open>Unfolding the definitions evaluates a reader on an example file.\<close>

lemmas eval_version = get_pipeline_version_def version_try_body_def
  py_int_def strip_def is_space_def unsigned_int_def is_digit_def digit_val_def

lemmas eval_files = sample_pipeline_file_def pipeline_file_def sample_epoch_def
  sample_stimulus_data_def sample_response_data_def

lemmas eval_pipeline = pipeline_get_sweep_data_def getitem_def fmt_d_def digits_of.simps Let_def
  get_long_unit_name_def startswith_def np_imul_def

lemmas eval_nwbx = nwbx_get_sweep_data_def getRawDataSourceType_def get_series_def clampex_file_def
  series_step_def getitem_def num_samples_def get_long_unit_name_def startswith_def Let_def
  sample_response_series_def sample_stimulus_series_def feedback_series_def other_series_def




lemma get_long_unit_name_cases:
  "get_long_unit_name u = Inr ''Amps'' \<or> get_long_unit_name u = Inr ''Volts'' \<or>
   get_long_unit_name u = Inl (ValueError ''Unit {} not recognized from TimeSeries'')"
  by (simp add: get_long_unit_name_def)

lemma np_imul_single: "np_imul a [k] = Inr (map (\<lambda>x. x * k) a)"
  by (simp add: np_imul_def)

text \<open>The stop index \<open>start + count - 1\<close> in fixed-width arithmetic.\<close>

lemma sint_add_sub1:
  "sint (x + y - 1 :: 'a::len word) = signed_take_bit (LENGTH('a) - 1) (sint x + sint y - 1)"
proof -
  have "x + y - 1 = (word_of_int (sint x + sint y - 1) :: 'a word)"
    by simp
  then show ?thesis
    by (metis sint_sbintrunc')
qed

lemma sint_scast_32_64: "sint (scast (x :: 32 word) :: 64 word) = sint x"
  by (rule sint_up_scast) (simp add: is_up)

lemma np_stop_wrapped:
  "np_val (np_sub1 (np_add a b)) =
     signed_take_bit (max (np_bits a) (np_bits b) - 1) (np_val a + np_val b - 1)"
  by (cases a; cases b) (simp_all add: sint_add_sub1 sint_scast_32_64)

lemma np_stop_exact:
  assumes "stop_fits a b"
  shows "np_val (np_sub1 (np_add a b)) = np_val a + np_val b - 1"
  using assms unfolding np_stop_wrapped stop_fits_def Let_def
  by (simp add: signed_take_bit_int_eq_self)

lemma pipeline_unfold:
  assumes "getitem (epochs f) (''Sweep_'' @ fmt_d n) = Inr swp"
    and "get_pipeline_version f = Inr (major, minor)"
    and "sd = ts_data (timeseries (ep_stimulus swp))"
    and "rd = ts_data (timeseries (ep_response swp))"
    and "bs = (if (major = 1 \<and> minor > 0) \<or> major > 1
               then map (\<lambda>x. x * attrs_conversion sd) (dvalue sd) else dvalue sd)"
    and "br = (if (major = 1 \<and> minor > 0) \<or> major > 1
               then map (\<lambda>x. x * attrs_conversion rd) (dvalue rd) else dvalue rd)"
  shows "pipeline_get_sweep_data f n =
     (case attrs_unit sd of
        None \<Rightarrow> Inl (ValueError ''Unknown stimulus unit'')
      | Some u \<Rightarrow>
          bindE (get_long_unit_name u) (\<lambda>us.
            if np_val (idx_start (ep_stimulus swp)) = 0 then
              Inr \<lparr>stimulus = map (\<lambda>x. x * (if us = ''Amps'' then 1000000000000 else 1000)) bs,
                   response = map (\<lambda>x. x * (if us = ''Amps'' then 1000 else 1000000000000)) br,
                   stimulus_unit = us,
                   index_range =
                     (case getitem (epochs f) (''Experiment_'' @ fmt_d n) of
                        Inr ex \<Rightarrow> stored_range (ep_stimulus ex)
                      | Inl e \<Rightarrow> stored_range (ep_stimulus swp)),
                   sampling_rate = starting_time_rate (timeseries (ep_stimulus swp))\<rparr>
            else Inl (AssertionError ''index range of the full sweep does not start at 0.'')))"
proof (cases "attrs_unit sd")
  case None
  then show ?thesis
    using assms by (simp add: pipeline_get_sweep_data_def Let_def)
next
  case (Some u)
  from get_long_unit_name_cases [of u] show ?thesis
  proof (elim disjE)
    assume "get_long_unit_name u = Inr ''Amps''"
    then show ?thesis
      using assms Some
      by (simp add: pipeline_get_sweep_data_def Let_def np_imul_single stored_range_def
            split: sum.split)
  next
    assume "get_long_unit_name u = Inr ''Volts''"
    then show ?thesis
      using assms Some
      by (simp add: pipeline_get_sweep_data_def Let_def np_imul_single stored_range_def
            split: sum.split)
  next
    assume "get_long_unit_name u = Inl (ValueError ''Unit {} not recognized from TimeSeries'')"
    then show ?thesis
      using assms Some
      by (simp add: pipeline_get_sweep_data_def Let_def)
  qed
qed

lemma pipeline_success_version:
  assumes "pipeline_get_sweep_data f n = Inr r"
  shows "\<exists>swp major minor. getitem (epochs f) (''Sweep_'' @ fmt_d n) = Inr swp \<and>
           get_pipeline_version f = Inr (major, minor)"
proof -
  from assms obtain swp where
    swp: "getitem (epochs f) (''Sweep_'' @ fmt_d n) = Inr swp"
    unfolding pipeline_get_sweep_data_def by (blast dest: bindE_Inr_D)
  from assms swp obtain v where "get_pipeline_version f = Inr v"
    unfolding pipeline_get_sweep_data_def Let_def by (auto dest!: bindE_Inr_D)
  with swp show ?thesis by (cases v) auto
qed

lemma pipeline_success:
  assumes ok: "pipeline_get_sweep_data f n = Inr r"
    and swp: "getitem (epochs f) (''Sweep_'' @ fmt_d n) = Inr swp"
    and ver: "get_pipeline_version f = Inr (major, minor)"
    and sd: "sd = ts_data (timeseries (ep_stimulus swp))"
    and rd: "rd = ts_data (timeseries (ep_response swp))"
    and bs: "bs = (if (major = 1 \<and> minor > 0) \<or> major > 1
               then map (\<lambda>x. x * attrs_conversion sd) (dvalue sd) else dvalue sd)"
    and br: "br = (if (major = 1 \<and> minor > 0) \<or> major > 1
               then map (\<lambda>x. x * attrs_conversion rd) (dvalue rd) else dvalue rd)"
  shows "\<exists>u. attrs_unit sd = Some u \<and> get_long_unit_name u = Inr (stimulus_unit r) \<and>
           (stimulus_unit r = ''Amps'' \<or> stimulus_unit r = ''Volts'') \<and>
           np_val (idx_start (ep_stimulus swp)) = 0 \<and>
           stimulus r = map (\<lambda>x. x * (if stimulus_unit r = ''Amps'' then 1000000000000 else 1000)) bs \<and>
           response r = map (\<lambda>x. x * (if stimulus_unit r = ''Amps'' then 1000 else 1000000000000)) br \<and>
           index_range r =
             (case getitem (epochs f) (''Experiment_'' @ fmt_d n) of
                Inr ex \<Rightarrow> stored_range (ep_stimulus ex)
              | Inl e \<Rightarrow> stored_range (ep_stimulus swp))"
proof -
  note eq = pipeline_unfold [OF swp ver sd rd bs br]
  from ok eq obtain u where u: "attrs_unit sd = Some u"
    by (cases "attrs_unit sd") auto
  from get_long_unit_name_cases [of u] show ?thesis
  proof (elim disjE)
    assume "get_long_unit_name u = Inr ''Amps''"
    with ok eq u show ?thesis by (auto split: if_splits)
  next
    assume "get_long_unit_name u = Inr ''Volts''"
    with ok eq u show ?thesis by (auto split: if_splits)
  next
    assume "get_long_unit_name u = Inl (ValueError ''Unit {} not recognized from TimeSeries'')"
    with ok eq u show ?thesis by simp
  qed
qed


section \<open>The pipeline version\<close>

lemma version_try_body_None:
  "version_try_body f = Inr None \<longleftrightarrow>
     (\<exists>g info v. general f = Some g \<and> generated_by g = Some info \<and>
        scan_version info = Inr (Some v) \<and> length (py_split CHR ''.'' v) < 2)"
proof (cases "general f")
  case None
  then show ?thesis by (simp add: version_try_body_def)
next
  case (Some g)
  show ?thesis
  proof (cases "generated_by g")
    case None
    with Some show ?thesis by (simp add: version_try_body_def)
  next
    case info: (Some info)
    show ?thesis
    proof (cases "scan_version info")
      case (Inl e)
      with Some info show ?thesis by (simp add: version_try_body_def)
    next
      case (Inr version)
      with Some info show ?thesis
        by (cases version)
           (auto simp: version_try_body_def Let_def bindE_Inr_iff)
    qed
  qed
qed

text \<open>
  Claim C9.  \<^verbatim>\<open>get_pipeline_version\<close> does not always return: it raises
  \<^verbatim>\<open>UnboundLocalError\<close> exactly when the scan finds a version string that has no
  \<^verbatim>\<open>'.'\<close> in it (fewer than two tokens), because then the \<^verbatim>\<open>try\<close> block ends normally
  with \<^verbatim>\<open>major\<close> and \<^verbatim>\<open>minor\<close> unbound.  Every other failure gives \<open>(0, 0)\<close>.
\<close>

theorem get_pipeline_version_raises:
  "get_pipeline_version f = Inl e \<longleftrightarrow>
     e = UnboundLocalError \<and>
     (\<exists>g info v. general f = Some g \<and> generated_by g = Some info \<and>
        scan_version info = Inr (Some v) \<and> length (py_split CHR ''.'' v) < 2)"
proof -
  have "get_pipeline_version f = Inl e \<longleftrightarrow> e = UnboundLocalError \<and> version_try_body f = Inr None"
    by (auto simp: get_pipeline_version_def split: sum.splits option.splits)
  then show ?thesis by (simp add: version_try_body_None)
qed

theorem get_pipeline_version_raises_witness:
  "get_pipeline_version (sample_pipeline_file ''1'') = Inl UnboundLocalError \<and>
   scan_version [''name'', ''pipeline'', ''version'', ''1''] = Inr (Some ''1'') \<and>
   length (py_split CHR ''.'' ''1'') < 2"
proof -
  have "general (sample_pipeline_file ''1'') = Some \<lparr>generated_by = Some [''name'', ''pipeline'', ''version'', ''1'']\<rparr>"
    by (simp add: eval_files)
  moreover have "scan_version [''name'', ''pipeline'', ''version'', ''1''] = Inr (Some ''1'')"
    by simp
  moreover have "length (py_split CHR ''.'' ''1'') < 2"
    by simp
  ultimately show ?thesis
    using get_pipeline_version_raises [of "sample_pipeline_file ''1''" UnboundLocalError]
    by auto
qed


section \<open>The post-processed reader: conversion, units, index range\<close>

text \<open>
  Claim C1.  When \<^verbatim>\<open>NwbPipelineReader.get_sweep_data\<close> returns, the stimulus and the
  response are the stored samples, multiplied by the declared conversion factor of
  their dataset if and only if the pipeline version satisfies \<open>major > 1\<close> or
  \<open>major = 1\<close> and \<open>minor > 0\<close>, and then by the factor of the unit; for version
  \<open>(1, 0)\<close> and below the conversion factor is not applied.
\<close>

theorem pipeline_conversion_by_version:
  assumes "pipeline_get_sweep_data f n = Inr r"
    and "getitem (epochs f) (''Sweep_'' @ fmt_d n) = Inr swp"
    and "get_pipeline_version f = Inr (major, minor)"
    and "sd = ts_data (timeseries (ep_stimulus swp))"
    and "rd = ts_data (timeseries (ep_response swp))"
    and "ks = (if stimulus_unit r = ''Amps'' then 1000000000000 else 1000)"
    and "kr = (if stimulus_unit r = ''Amps'' then 1000 else 1000000000000)"
  shows "(major > 1 \<or> (major = 1 \<and> minor > 0) \<longrightarrow>
            stimulus r = map (\<lambda>x. x * ks) (map (\<lambda>x. x * attrs_conversion sd) (dvalue sd)) \<and>
            response r = map (\<lambda>x. x * kr) (map (\<lambda>x. x * attrs_conversion rd) (dvalue rd))) \<and>
         (\<not> (major > 1 \<or> (major = 1 \<and> minor > 0)) \<longrightarrow>
            stimulus r = map (\<lambda>x. x * ks) (dvalue sd) \<and>
            response r = map (\<lambda>x. x * kr) (dvalue rd))"
  using pipeline_success [OF assms(1-5) refl refl] assms(6,7) by auto


theorem pipeline_conversion_by_version_witness:
  "get_pipeline_version (sample_pipeline_file ''1.1'') = Inr (1, 1) \<and>
   pipeline_get_sweep_data (sample_pipeline_file ''1.1'') 7 =
     Inr \<lparr>stimulus = map (\<lambda>x. x * 1000000000000) (map (\<lambda>x. x * 2) [1, 2, 3]),
          response = map (\<lambda>x. x * 1000) (map (\<lambda>x. x * 3) [4, 5, 6]),
          stimulus_unit = ''Amps'', index_range = (1, 2), sampling_rate = 200000\<rparr> \<and>
   get_pipeline_version (sample_pipeline_file ''1.0'') = Inr (1, 0) \<and>
   pipeline_get_sweep_data (sample_pipeline_file ''1.0'') 7 =
     Inr \<lparr>stimulus = map (\<lambda>x. x * 1000000000000) [1, 2, 3],
          response = map (\<lambda>x. x * 1000) [4, 5, 6],
          stimulus_unit = ''Amps'', index_range = (1, 2), sampling_rate = 200000\<rparr>"
proof -
  let ?swp = "sample_epoch (Int32 0) (Int32 3) sample_stimulus_data sample_response_data"
  let ?r = "\<lambda>s p. \<lparr>stimulus = s, response = p,
          stimulus_unit = ''Amps'', index_range = (1, 2), sampling_rate = 200000\<rparr>"
  let ?r11 = "?r [2000000000000, 4000000000000, 6000000000000] [12000, 15000, 18000]"
  let ?r10 = "?r [1000000000000, 2000000000000, 3000000000000] [4000, 5000, 6000]"
  have v11: "get_pipeline_version (sample_pipeline_file ''1.1'') = Inr (1, 1)"
    by (simp add: eval_version eval_files)
  have v10: "get_pipeline_version (sample_pipeline_file ''1.0'') = Inr (1, 0)"
    by (simp add: eval_version eval_files)
  have s: "getitem (epochs (sample_pipeline_file v)) (''Sweep_'' @ fmt_d 7) = Inr ?swp" for v
    by (simp add: getitem_def fmt_d_def digits_of.simps eval_files)
  have r11: "pipeline_get_sweep_data (sample_pipeline_file ''1.1'') 7 = Inr ?r11"
    by (simp add: eval_pipeline eval_version eval_files)
  have r10: "pipeline_get_sweep_data (sample_pipeline_file ''1.0'') 7 = Inr ?r10"
    by (simp add: eval_pipeline eval_version eval_files)
  from pipeline_conversion_by_version [OF r11 s v11 refl refl refl refl]
       pipeline_conversion_by_version [OF r10 s v10 refl refl refl refl]
  show ?thesis
    by (simp add: v11 v10 r11 r10)
qed


text \<open>
  Claim C2.  The arrays after the version-dependent conversion (\<open>bs\<close>, \<open>br\<close>) are rescaled by the
  resolved unit of the stimulus: for Amps the response by \<open>10\<^sup>3\<close> and the stimulus by
  \<open>10\<^sup>1\<^sup>2\<close>, for Volts the response by \<open>10\<^sup>1\<^sup>2\<close> and the stimulus by \<open>10\<^sup>3\<close>; the unit is
  the long name of the stimulus dataset's unit attribute; and when that attribute is
  absent the call fails with \<^verbatim>\<open>ValueError("Unknown stimulus unit")\<close>.
\<close>

theorem pipeline_unit_rescale:
  assumes "getitem (epochs f) (''Sweep_'' @ fmt_d n) = Inr swp"
    and "get_pipeline_version f = Inr (major, minor)"
    and "sd = ts_data (timeseries (ep_stimulus swp))"
    and "rd = ts_data (timeseries (ep_response swp))"
    and "bs = (if (major = 1 \<and> minor > 0) \<or> major > 1
               then map (\<lambda>x. x * attrs_conversion sd) (dvalue sd) else dvalue sd)"
    and "br = (if (major = 1 \<and> minor > 0) \<or> major > 1
               then map (\<lambda>x. x * attrs_conversion rd) (dvalue rd) else dvalue rd)"
  shows "(\<forall>r. pipeline_get_sweep_data f n = Inr r \<longrightarrow>
            (stimulus_unit r = ''Amps'' \<and>
               response r = map (\<lambda>x. x * 1000) br \<and> stimulus r = map (\<lambda>x. x * 1000000000000) bs) \<or>
            (stimulus_unit r = ''Volts'' \<and>
               response r = map (\<lambda>x. x * 1000000000000) br \<and> stimulus r = map (\<lambda>x. x * 1000) bs)) \<and>
         (\<forall>r. pipeline_get_sweep_data f n = Inr r \<longrightarrow>
            (\<exists>u. attrs_unit sd = Some u \<and> get_long_unit_name u = Inr (stimulus_unit r))) \<and>
         (attrs_unit sd = None \<longrightarrow>
            pipeline_get_sweep_data f n = Inl (ValueError ''Unknown stimulus unit''))"
proof (intro conjI allI impI)
  fix r assume ok: "pipeline_get_sweep_data f n = Inr r"
  from pipeline_success [OF ok assms]
  show "(stimulus_unit r = ''Amps'' \<and>
               response r = map (\<lambda>x. x * 1000) br \<and> stimulus r = map (\<lambda>x. x * 1000000000000) bs) \<or>
            (stimulus_unit r = ''Volts'' \<and>
               response r = map (\<lambda>x. x * 1000000000000) br \<and> stimulus r = map (\<lambda>x. x * 1000) bs)"
    by auto
  from pipeline_success [OF ok assms]
  show "\<exists>u. attrs_unit sd = Some u \<and> get_long_unit_name u = Inr (stimulus_unit r)"
    by auto
next
  assume "attrs_unit sd = None"
  with pipeline_unfold [OF assms]
  show "pipeline_get_sweep_data f n = Inl (ValueError ''Unknown stimulus unit'')"
    by simp
qed


theorem pipeline_unit_rescale_witness:
  "pipeline_get_sweep_data no_experiment_file 7 =
     Inr \<lparr>stimulus = map (\<lambda>x. x * 1000000000000) (map (\<lambda>x. x * 2) [1, 2, 3]),
          response = map (\<lambda>x. x * 1000) (map (\<lambda>x. x * 3) [4, 5, 6]),
          stimulus_unit = ''Amps'', index_range = (0, 2), sampling_rate = 200000\<rparr> \<and>
   pipeline_get_sweep_data volts_file 7 =
     Inr \<lparr>stimulus = map (\<lambda>x. x * 1000) (map (\<lambda>x. x * 2) [1, 2, 3]),
          response = map (\<lambda>x. x * 1000000000000) (map (\<lambda>x. x * 3) [4, 5, 6]),
          stimulus_unit = ''Volts'', index_range = (0, 2), sampling_rate = 200000\<rparr> \<and>
   pipeline_get_sweep_data no_unit_file 7 = Inl (ValueError ''Unknown stimulus unit'')"
proof -
  have vA: "get_pipeline_version no_experiment_file = Inr (1, 1)"
    by (simp add: eval_version eval_files no_experiment_file_def volts_file_def no_unit_file_def)
  have vV: "get_pipeline_version volts_file = Inr (1, 1)"
    by (simp add: eval_version eval_files no_experiment_file_def volts_file_def no_unit_file_def)
  have vN: "get_pipeline_version no_unit_file = Inr (1, 1)"
    by (simp add: eval_version eval_files no_experiment_file_def volts_file_def no_unit_file_def)
  have sA: "getitem (epochs no_experiment_file) (''Sweep_'' @ fmt_d 7) =
      Inr (sample_epoch (Int32 0) (Int32 3) sample_stimulus_data sample_response_data)"
    by (simp add: getitem_def fmt_d_def digits_of.simps eval_files no_experiment_file_def volts_file_def no_unit_file_def)
  have sV: "getitem (epochs volts_file) (''Sweep_'' @ fmt_d 7) =
      Inr (sample_epoch (Int32 0) (Int32 3) (sample_stimulus_data\<lparr>attrs_unit := Some ''Volts''\<rparr>) sample_response_data)"
    by (simp add: getitem_def fmt_d_def digits_of.simps eval_files no_experiment_file_def volts_file_def no_unit_file_def)
  have sN: "getitem (epochs no_unit_file) (''Sweep_'' @ fmt_d 7) =
      Inr (sample_epoch (Int32 0) (Int32 3) (sample_stimulus_data\<lparr>attrs_unit := None\<rparr>) sample_response_data)"
    by (simp add: getitem_def fmt_d_def digits_of.simps eval_files no_experiment_file_def volts_file_def no_unit_file_def)
  have rA: "pipeline_get_sweep_data no_experiment_file 7 =
     Inr \<lparr>stimulus = [2000000000000, 4000000000000, 6000000000000],
          response = [12000, 15000, 18000],
          stimulus_unit = ''Amps'', index_range = (0, 2), sampling_rate = 200000\<rparr>"
    by (simp add: eval_pipeline eval_version eval_files no_experiment_file_def volts_file_def no_unit_file_def)
  have rV: "pipeline_get_sweep_data volts_file 7 =
     Inr \<lparr>stimulus = [2000, 4000, 6000],
          response = [12000000000000, 15000000000000, 18000000000000],
          stimulus_unit = ''Volts'', index_range = (0, 2), sampling_rate = 200000\<rparr>"
    by (simp add: eval_pipeline eval_version eval_files no_experiment_file_def volts_file_def no_unit_file_def)
  have uN: "attrs_unit (ts_data (timeseries (ep_stimulus
       (sample_epoch (Int32 0) (Int32 3) (sample_stimulus_data\<lparr>attrs_unit := None\<rparr>) sample_response_data)))) = None"
    by (simp add: eval_files)
  from pipeline_unit_rescale [OF sA vA refl refl refl refl]
       pipeline_unit_rescale [OF sV vV refl refl refl refl]
       pipeline_unit_rescale [OF sN vN refl refl refl refl] uN
  show ?thesis
    by (simp add: rA rV)
qed

text \<open>
  Claim C6, amended.  With an \<^verbatim>\<open>Experiment_<n>\<close> entry the returned index range is that
  entry's \<open>(start, start + count - 1)\<close>; without one it is the full sweep's, and the
  absence is no failure: where the version scan returns and the unit is recognised,
  the call returns exactly when the full sweep starts at 0, and fails the assertion
  otherwise.  A call that returns has a full sweep that starts at 0.  The stop index
  is computed in the integer type of the stored values (the wider of the two): it is
  \<open>start + count - 1\<close> whenever that number is a value of the type, and that number
  wrapped around otherwise.
\<close>

theorem pipeline_index_range:
  assumes swp: "getitem (epochs f) (''Sweep_'' @ fmt_d n) = Inr swp"
  shows "(\<forall>r ex. pipeline_get_sweep_data f n = Inr r \<and>
                  getitem (epochs f) (''Experiment_'' @ fmt_d n) = Inr ex \<longrightarrow>
            index_range r = stored_range (ep_stimulus ex)) \<and>
         (\<forall>r. pipeline_get_sweep_data f n = Inr r \<and>
                  getitem (epochs f) (''Experiment_'' @ fmt_d n) = Inl KeyError \<longrightarrow>
            index_range r = stored_range (ep_stimulus swp)) \<and>
         (\<forall>r. pipeline_get_sweep_data f n = Inr r \<longrightarrow> np_val (idx_start (ep_stimulus swp)) = 0) \<and>
         (\<forall>major minor u us.
            get_pipeline_version f = Inr (major, minor) \<and>
            attrs_unit (ts_data (timeseries (ep_stimulus swp))) = Some u \<and>
            get_long_unit_name u = Inr us \<longrightarrow>
            (if np_val (idx_start (ep_stimulus swp)) = 0
             then \<exists>r. pipeline_get_sweep_data f n = Inr r
             else pipeline_get_sweep_data f n =
                    Inl (AssertionError ''index range of the full sweep does not start at 0.''))) \<and>
         (\<forall>p. stored_range p =
                (np_val (idx_start p),
                 signed_take_bit (max (np_bits (idx_start p)) (np_bits (count p)) - 1)
                   (np_val (idx_start p) + np_val (count p) - 1))) \<and>
         (\<forall>p. stop_fits (idx_start p) (count p) \<longrightarrow>
                stored_range p =
                  (np_val (idx_start p), np_val (idx_start p) + np_val (count p) - 1))"
proof -
  have 1: "index_range r = stored_range (ep_stimulus ex)"
    if ok: "pipeline_get_sweep_data f n = Inr r"
      and ex: "getitem (epochs f) (''Experiment_'' @ fmt_d n) = Inr ex" for r ex
  proof -
    from ok obtain major minor where "get_pipeline_version f = Inr (major, minor)"
      using pipeline_success_version by blast
    from pipeline_success [OF ok swp this refl refl refl refl] ex show ?thesis by auto
  qed
  have 2: "index_range r = stored_range (ep_stimulus swp)"
    if ok: "pipeline_get_sweep_data f n = Inr r"
      and ex: "getitem (epochs f) (''Experiment_'' @ fmt_d n) = Inl KeyError" for r
  proof -
    from ok obtain major minor where "get_pipeline_version f = Inr (major, minor)"
      using pipeline_success_version by blast
    from pipeline_success [OF ok swp this refl refl refl refl] ex show ?thesis by auto
  qed
  have 3: "np_val (idx_start (ep_stimulus swp)) = 0"
    if ok: "pipeline_get_sweep_data f n = Inr r" for r
  proof -
    from ok obtain major minor where "get_pipeline_version f = Inr (major, minor)"
      using pipeline_success_version by blast
    from pipeline_success [OF ok swp this refl refl refl refl] show ?thesis by auto
  qed
  have 4: "if np_val (idx_start (ep_stimulus swp)) = 0
             then \<exists>r. pipeline_get_sweep_data f n = Inr r
             else pipeline_get_sweep_data f n =
                    Inl (AssertionError ''index range of the full sweep does not start at 0.'')"
    if v: "get_pipeline_version f = Inr (major, minor)"
      and u: "attrs_unit (ts_data (timeseries (ep_stimulus swp))) = Some u"
      and us: "get_long_unit_name u = Inr us" for major minor u us
    using pipeline_unfold [OF swp v refl refl refl refl] u us by simp
  have 5: "stored_range p =
                (np_val (idx_start p),
                 signed_take_bit (max (np_bits (idx_start p)) (np_bits (count p)) - 1)
                   (np_val (idx_start p) + np_val (count p) - 1))" for p
    by (simp add: stored_range_def np_stop_wrapped)
  have 6: "stored_range p =
                  (np_val (idx_start p), np_val (idx_start p) + np_val (count p) - 1)"
    if "stop_fits (idx_start p) (count p)" for p
    using that by (simp add: stored_range_def np_stop_exact)
  from 1 2 3 have A: "(\<forall>r ex. pipeline_get_sweep_data f n = Inr r \<and>
                  getitem (epochs f) (''Experiment_'' @ fmt_d n) = Inr ex \<longrightarrow>
            index_range r = stored_range (ep_stimulus ex)) \<and>
         (\<forall>r. pipeline_get_sweep_data f n = Inr r \<and>
                  getitem (epochs f) (''Experiment_'' @ fmt_d n) = Inl KeyError \<longrightarrow>
            index_range r = stored_range (ep_stimulus swp)) \<and>
         (\<forall>r. pipeline_get_sweep_data f n = Inr r \<longrightarrow> np_val (idx_start (ep_stimulus swp)) = 0)"
    by blast
  from 4 have B: "\<forall>major minor u us.
            get_pipeline_version f = Inr (major, minor) \<and>
            attrs_unit (ts_data (timeseries (ep_stimulus swp))) = Some u \<and>
            get_long_unit_name u = Inr us \<longrightarrow>
            (if np_val (idx_start (ep_stimulus swp)) = 0
             then \<exists>r. pipeline_get_sweep_data f n = Inr r
             else pipeline_get_sweep_data f n =
                    Inl (AssertionError ''index range of the full sweep does not start at 0.''))"
    by (intro allI impI) (elim conjE)
  from 5 6 have C: "(\<forall>p. stored_range p =
                (np_val (idx_start p),
                 signed_take_bit (max (np_bits (idx_start p)) (np_bits (count p)) - 1)
                   (np_val (idx_start p) + np_val (count p) - 1))) \<and>
         (\<forall>p. stop_fits (idx_start p) (count p) \<longrightarrow>
                stored_range p =
                  (np_val (idx_start p), np_val (idx_start p) + np_val (count p) - 1))"
    by blast
  from A B C show ?thesis by (intro conjI) (elim conjE; assumption)+
qed

theorem pipeline_index_range_witness:
  "pipeline_get_sweep_data (sample_pipeline_file ''1.1'') 7 =
     Inr \<lparr>stimulus = [2000000000000, 4000000000000, 6000000000000],
          response = [12000, 15000, 18000],
          stimulus_unit = ''Amps'', index_range = (1, 1 + 2 - 1), sampling_rate = 200000\<rparr> \<and>
   stop_fits (Int32 1) (Int32 2) \<and>
   getitem (epochs no_experiment_file) (''Experiment_'' @ fmt_d 7) = Inl KeyError \<and>
   pipeline_get_sweep_data no_experiment_file 7 =
     Inr \<lparr>stimulus = [2000000000000, 4000000000000, 6000000000000],
          response = [12000, 15000, 18000],
          stimulus_unit = ''Amps'', index_range = (0, 0 + 3 - 1), sampling_rate = 200000\<rparr> \<and>
   pipeline_get_sweep_data late_start_file 7 =
     Inl (AssertionError ''index range of the full sweep does not start at 0.'')"
proof -
  let ?ex = "sample_epoch (Int32 1) (Int32 2) sample_stimulus_data sample_response_data"
  have vL: "get_pipeline_version late_start_file = Inr (1, 1)"
    by (simp add: eval_version eval_files late_start_file_def)
  have sL: "getitem (epochs late_start_file) (''Sweep_'' @ fmt_d 7) =
      Inr (sample_epoch (Int32 1) (Int32 3) sample_stimulus_data sample_response_data)"
    by (simp add: getitem_def fmt_d_def digits_of.simps eval_files late_start_file_def)
  have uL: "attrs_unit (ts_data (timeseries (ep_stimulus
       (sample_epoch (Int32 1) (Int32 3) sample_stimulus_data sample_response_data)))) = Some ''Amps''"
    by (simp add: eval_files)
  have nL: "get_long_unit_name ''Amps'' = Inr ''Amps''"
    by (simp add: get_long_unit_name_def startswith_def)
  have iL: "np_val (idx_start (ep_stimulus
       (sample_epoch (Int32 1) (Int32 3) sample_stimulus_data sample_response_data))) \<noteq> 0"
    by (simp add: eval_files)
  have late: "pipeline_get_sweep_data late_start_file 7 =
     Inl (AssertionError ''index range of the full sweep does not start at 0.'')"
    using pipeline_index_range [OF sL] vL uL nL iL
    by auto
  have fits: "stop_fits (Int32 1) (Int32 2)"
    by (simp add: stop_fits_def)
  have s1: "getitem (epochs (sample_pipeline_file ''1.1'')) (''Sweep_'' @ fmt_d 7) =
      Inr (sample_epoch (Int32 0) (Int32 3) sample_stimulus_data sample_response_data)"
    by (simp add: getitem_def fmt_d_def digits_of.simps eval_files)
  have e1: "getitem (epochs (sample_pipeline_file ''1.1'')) (''Experiment_'' @ fmt_d 7) = Inr ?ex"
    by (simp add: getitem_def fmt_d_def digits_of.simps eval_files)
  have e: "getitem (epochs no_experiment_file) (''Experiment_'' @ fmt_d 7) = Inl KeyError"
    by (simp add: getitem_def fmt_d_def digits_of.simps eval_files no_experiment_file_def)
  have r1: "pipeline_get_sweep_data (sample_pipeline_file ''1.1'') 7 =
     Inr \<lparr>stimulus = [2000000000000, 4000000000000, 6000000000000],
          response = [12000, 15000, 18000],
          stimulus_unit = ''Amps'', index_range = (1, 2), sampling_rate = 200000\<rparr>"
    by (simp add: eval_pipeline eval_version eval_files)
  have "stored_range (ep_stimulus ?ex) = (1, 1 + 2 - 1)"
    using pipeline_index_range [OF s1] fits by (simp add: eval_files)
  with pipeline_index_range [OF s1] r1 e1
  have x1: "index_range (projr (pipeline_get_sweep_data (sample_pipeline_file ''1.1'') 7)) = (1, 1 + 2 - 1)"
    by simp
  have r2: "pipeline_get_sweep_data no_experiment_file 7 =
     Inr \<lparr>stimulus = [2000000000000, 4000000000000, 6000000000000],
          response = [12000, 15000, 18000],
          stimulus_unit = ''Amps'', index_range = (0, 2), sampling_rate = 200000\<rparr>"
    by (simp add: eval_pipeline eval_version eval_files no_experiment_file_def)
  from late e r1 r2 fits x1 show ?thesis by simp
qed

text \<open>An experiment epoch stored as two 64-bit integers, start \<open>2\<^sup>6\<^sup>3 - 1\<close> and count 2:
  the returned stop index is \<open>- 2\<^sup>6\<^sup>3\<close>, not \<open>start + count - 1\<close>.\<close>

theorem index_range_wraps_counterexample:
  "pipeline_get_sweep_data overflow_file 7 =
     Inr \<lparr>stimulus = [1000000000000, 2000000000000, 3000000000000], response = [4000, 5000, 6000],
          stimulus_unit = ''Amps'',
          index_range = (9223372036854775807, - 9223372036854775808),
          sampling_rate = 200000\<rparr> \<and>
   getitem (epochs overflow_file) (''Experiment_'' @ fmt_d 7) =
     Inr (sample_epoch (Int64 9223372036854775807) (Int64 2) sample_stimulus_data sample_response_data) \<and>
   np_val (Int64 9223372036854775807) + np_val (Int64 2) - 1 = 9223372036854775808 \<and>
   snd (index_range (projr (pipeline_get_sweep_data overflow_file 7))) \<noteq>
     np_val (Int64 9223372036854775807) + np_val (Int64 2) - 1"
proof -
  have p: "pipeline_get_sweep_data overflow_file 7 =
     Inr \<lparr>stimulus = [1000000000000, 2000000000000, 3000000000000], response = [4000, 5000, 6000],
          stimulus_unit = ''Amps'',
          index_range = (9223372036854775807, - 9223372036854775808),
          sampling_rate = 200000\<rparr>"
    by (simp add: eval_pipeline eval_version eval_files overflow_file_def)
  have e: "getitem (epochs overflow_file) (''Experiment_'' @ fmt_d 7) =
     Inr (sample_epoch (Int64 9223372036854775807) (Int64 2) sample_stimulus_data sample_response_data)"
    by (simp add: getitem_def fmt_d_def digits_of.simps eval_files overflow_file_def)
  from p e show ?thesis by simp
qed

section \<open>The converted reader: the loop over the series of a sweep\<close>

lemma series_step_Inr:
  assumes "series_step src (resp, stim) s = Inr st'"
  shows "(skipped src s \<and> \<not> retained src s \<and> st' = (resp, stim)) \<or>
         (retained src s \<and> response_bearing s \<and> \<not> stimulus_bearing s \<and> resp = None \<and>
            st' = (Some (map (\<lambda>x. x * s_conversion s) (s_data s)), stim)) \<or>
         (retained src s \<and> stimulus_bearing s \<and> \<not> response_bearing s \<and> stim = None \<and>
            (\<exists>u r. st' = (resp, Some (map (\<lambda>x. x * s_conversion s) (s_data s), u, r,
                                       (0, int (length (s_data s)) - 1)))))"
proof (cases "abf src")
  case False
  with assms show ?thesis
    by (cases stim)
       (auto simp: series_step_def retained_def skipped_def response_bearing_def stimulus_bearing_def
          num_samples_def bindE_Inr_iff split: if_splits)
next
  case True
  with assms obtain d c where d: "s_description s = Some d" and c: "map_of d ''number'' = Some c"
    and c15: "c = 1 \<or> c = 5"
    by (auto simp: series_step_def getitem_def bindE_Inr_iff split: option.splits if_splits)
  from c15 show ?thesis
  proof
    assume "c = 5"
    with assms True d c show ?thesis
      by (simp add: series_step_def getitem_def retained_def skipped_def)
  next
    assume "c = 1"
    with assms True d c show ?thesis
      by (cases stim)
         (auto simp: series_step_def getitem_def retained_def skipped_def response_bearing_def
            stimulus_bearing_def num_samples_def bindE_Inr_iff split: if_splits)
  qed
qed



lemma series_loop_append:
  "series_loop src st (xs @ ys) = bindE (series_loop src st xs) (\<lambda>st'. series_loop src st' ys)"
proof (induction xs arbitrary: st)
  case Nil
  show ?case by simp
next
  case (Cons x xs)
  show ?case
    by (cases "series_step src st x") (simp_all add: Cons.IH)
qed


lemma series_loop_Cons_Inr:
  assumes "series_loop src (r0, s0) (x # xs) = Inr (resp, stim)"
  obtains r1 s1 where "series_step src (r0, s0) x = Inr (r1, s1)"
    and "series_loop src (r1, s1) xs = Inr (resp, stim)"
proof -
  from assms obtain st1 where
    "series_step src (r0, s0) x = Inr st1" "series_loop src st1 xs = Inr (resp, stim)"
    by (auto dest: bindE_Inr_D)
  then show ?thesis using that by (cases st1) auto
qed

lemma series_loop_response_count:
  assumes "series_loop src (r0, s0) xs = Inr (resp, stim)"
  shows "length (filter response_bearing (filter (retained src) xs)) + (if r0 = None then 0 else 1)
           = (if resp = None then 0 else 1)"
  using assms
proof (induction xs arbitrary: r0 s0)
  case Nil
  then show ?case by simp
next
  case (Cons x xs)
  from Cons.prems obtain r1 s1 where
    step: "series_step src (r0, s0) x = Inr (r1, s1)" and rest: "series_loop src (r1, s1) xs = Inr (resp, stim)"
    by (rule series_loop_Cons_Inr)
  note IH = Cons.IH [OF rest]
  from series_step_Inr [OF step] show ?case
  proof (elim disjE conjE exE)
    assume "\<not> retained src x" "(r1, s1) = (r0, s0)"
    with IH show ?thesis by simp
  next
    assume "retained src x" "response_bearing x" "r0 = None"
      "(r1, s1) = (Some (map (\<lambda>x'. x' * s_conversion x) (s_data x)), s0)"
    with IH show ?thesis by simp
  next
    fix u r
    assume "retained src x" "\<not> response_bearing x"
      "(r1, s1) = (r0, Some (map (\<lambda>x'. x' * s_conversion x) (s_data x), u, r,
                                       (0, int (length (s_data x)) - 1)))"
    with IH show ?thesis by simp
  qed
qed

lemma series_loop_stimulus_count:
  assumes "series_loop src (r0, s0) xs = Inr (resp, stim)"
  shows "length (filter stimulus_bearing (filter (retained src) xs)) + (if s0 = None then 0 else 1)
           = (if stim = None then 0 else 1)"
  using assms
proof (induction xs arbitrary: r0 s0)
  case Nil
  then show ?case by simp
next
  case (Cons x xs)
  from Cons.prems obtain r1 s1 where
    step: "series_step src (r0, s0) x = Inr (r1, s1)" and rest: "series_loop src (r1, s1) xs = Inr (resp, stim)"
    by (rule series_loop_Cons_Inr)
  note IH = Cons.IH [OF rest]
  from series_step_Inr [OF step] show ?case
  proof (elim disjE conjE exE)
    assume "\<not> retained src x" "(r1, s1) = (r0, s0)"
    with IH show ?thesis by simp
  next
    assume "retained src x" "\<not> stimulus_bearing x"
      "(r1, s1) = (Some (map (\<lambda>x'. x' * s_conversion x) (s_data x)), s0)"
    with IH show ?thesis by simp
  next
    fix u r
    assume "retained src x" "stimulus_bearing x" "s0 = None"
      "(r1, s1) = (r0, Some (map (\<lambda>x'. x' * s_conversion x) (s_data x), u, r,
                                       (0, int (length (s_data x)) - 1)))"
    with IH show ?thesis by simp
  qed
qed

lemma series_loop_kinds:
  assumes "series_loop src (r0, s0) xs = Inr (resp, stim)" and "s \<in> set xs" and "retained src s"
  shows "response_bearing s \<or> stimulus_bearing s"
  using assms
proof (induction xs arbitrary: r0 s0)
  case Nil
  then show ?case by simp
next
  case (Cons x xs)
  from Cons.prems(1) obtain r1 s1 where
    step: "series_step src (r0, s0) x = Inr (r1, s1)" and rest: "series_loop src (r1, s1) xs = Inr (resp, stim)"
    by (rule series_loop_Cons_Inr)
  show ?case
  proof (cases "s = x")
    case True
    with series_step_Inr [OF step] Cons.prems(3) show ?thesis by blast
  next
    case False
    with Cons.prems(2) have "s \<in> set xs" by simp
    from Cons.IH [OF rest this Cons.prems(3)] show ?thesis .
  qed
qed

lemma series_loop_index_range:
  assumes "series_loop src (r0, s0) xs = Inr (resp, Some (ys, u, r, ir))"
    and "\<And>ys u r ir. s0 = Some (ys, u, r, ir) \<Longrightarrow> ir = (0, int (length ys) - 1)"
  shows "ir = (0, int (length ys) - 1)"
  using assms
proof (induction xs arbitrary: r0 s0)
  case Nil
  then show ?case by simp
next
  case (Cons x xs)
  from Cons.prems(1) obtain r1 s1 where
    step: "series_step src (r0, s0) x = Inr (r1, s1)"
    and rest: "series_loop src (r1, s1) xs = Inr (resp, Some (ys, u, r, ir))"
    by (rule series_loop_Cons_Inr)
  have "\<And>ys u r ir. s1 = Some (ys, u, r, ir) \<Longrightarrow> ir = (0, int (length ys) - 1)"
    using series_step_Inr [OF step] Cons.prems(2) by auto
  from Cons.IH [OF rest this] show ?case .
qed


lemma series_loop_response_found:
  assumes "series_loop src (None, None) xs = Inr (resp, stim)"
  shows "resp \<noteq> None \<longleftrightarrow> (\<exists>s \<in> set xs. retained src s \<and> response_bearing s)"
proof -
  from series_loop_response_count [OF assms]
  have "length (filter response_bearing (filter (retained src) xs)) = (if resp = None then 0 else 1)"
    by simp
  then have "resp \<noteq> None \<longleftrightarrow> filter response_bearing (filter (retained src) xs) \<noteq> []"
    by (cases resp) auto
  then show ?thesis by (auto simp: filter_empty_conv)
qed

lemma series_loop_stimulus_found:
  assumes "series_loop src (None, None) xs = Inr (resp, stim)"
  shows "stim \<noteq> None \<longleftrightarrow> (\<exists>s \<in> set xs. retained src s \<and> stimulus_bearing s)"
proof -
  from series_loop_stimulus_count [OF assms]
  have "length (filter stimulus_bearing (filter (retained src) xs)) = (if stim = None then 0 else 1)"
    by simp
  then have "stim \<noteq> None \<longleftrightarrow> filter stimulus_bearing (filter (retained src) xs) \<noteq> []"
    by (cases stim) auto
  then show ?thesis by (auto simp: filter_empty_conv)
qed

lemma series_step_duplicate_response:
  assumes "retained src s" and "response_bearing s" and "resp \<noteq> None"
  shows "series_step src (resp, stim) s =
           Inl (ValueError ''Found multiple response TimeSeries in NWB file for sweep number {}.'')"
  using assms
  by (auto simp: series_step_def retained_def response_bearing_def getitem_def
        split: option.splits if_splits)

lemma series_step_duplicate_stimulus:
  assumes "retained src s" and "stimulus_bearing s" and "stim \<noteq> None"
  shows "series_step src (resp, stim) s =
           Inl (ValueError ''Found multiple stimulus TimeSeries in NWB file for sweep number {}.'')"
  using assms
  by (auto simp: series_step_def retained_def stimulus_bearing_def getitem_def
        split: option.splits if_splits)

lemma series_step_unexpected:
  assumes "retained src s" and "\<not> response_bearing s" and "\<not> stimulus_bearing s"
  shows "series_step src st s = Inl (ValueError ''Unexpected TimeSeries {}.'')"
  using assms
  by (cases st)
     (auto simp: series_step_def retained_def response_bearing_def stimulus_bearing_def getitem_def
        split: option.splits if_splits)

lemma nwbx_unfold:
  assumes "src = getRawDataSourceType (experiment_description nwb)"
    and "\<not> unknown src"
    and "get_series (sweep_table nwb) n = Some series"
  shows "nwbx_get_sweep_data nwb n =
     bindE (series_loop src (None, None) series) (\<lambda>(response0, stimulus0).
       case stimulus0 of
         None \<Rightarrow> Inl (ValueError ''Could not find one stimulus TimeSeries for sweep number {}.'')
       | Some (stimulus1, stimulus_unit1, stimulus_rate, stimulus_index_range) \<Rightarrow>
           (case response0 of
              None \<Rightarrow> Inl (ValueError ''Could not find one response TimeSeries for sweep number {}.'')
            | Some response1 \<Rightarrow>
                if length stimulus1 = length response1 then
                  Inr \<lparr>stimulus = stimulus1,
                       response = response1,
                       stimulus_unit = stimulus_unit1,
                       index_range = stimulus_index_range,
                       sampling_rate = stimulus_rate\<rparr>
                else Inl (AssertionError ''Stimulus and response have a different length.'')))"
  using assms by (simp add: nwbx_get_sweep_data_def Let_def)

lemma nwbx_step_error:
  assumes "src = getRawDataSourceType (experiment_description nwb)"
    and "\<not> unknown src"
    and "get_series (sweep_table nwb) n = Some (pre @ s # post)"
    and "series_loop src (None, None) pre = Inr st"
    and "series_step src st s = Inl e"
  shows "nwbx_get_sweep_data nwb n = Inl e"
  using assms(4,5) by (simp add: nwbx_unfold [OF assms(1-3)] series_loop_append)

lemma nwbx_success:
  assumes ok: "nwbx_get_sweep_data nwb n = Inr r"
    and src: "src = getRawDataSourceType (experiment_description nwb)"
  shows "\<exists>series resp. \<not> unknown src \<and> get_series (sweep_table nwb) n = Some series \<and>
           series_loop src (None, None) series =
             Inr (Some resp, Some (stimulus r, stimulus_unit r, sampling_rate r, index_range r)) \<and>
           response r = resp \<and> length (stimulus r) = length resp"
proof -
  from ok src have u: "\<not> unknown src"
    by (auto simp: nwbx_get_sweep_data_def Let_def split: if_splits)
  from ok src u obtain series where g: "get_series (sweep_table nwb) n = Some series"
    by (cases "get_series (sweep_table nwb) n") (auto simp: nwbx_get_sweep_data_def Let_def)
  note eq = nwbx_unfold [OF src u g]
  from ok [unfolded eq] obtain st where
    l: "series_loop src (None, None) series = Inr st" by (auto dest: bindE_Inr_D)
  obtain resp0 stim0 where st: "st = (resp0, stim0)" by (cases st)
  from ok [unfolded eq] l st obtain ys un rt ir where stim0: "stim0 = Some (ys, un, rt, ir)"
    by (cases stim0) auto
  from ok [unfolded eq] l st stim0 obtain resp where resp0: "resp0 = Some resp"
    by (cases resp0) auto
  from ok [unfolded eq] l st stim0 resp0
  have "length ys = length resp \<and>
        r = \<lparr>stimulus = ys, response = resp, stimulus_unit = un, index_range = ir, sampling_rate = rt\<rparr>"
    by (auto split: if_splits)
  with u g l st stim0 resp0 show ?thesis by auto
qed


text \<open>
  Claim C5.  In \<^verbatim>\<open>NwbXReader.get_sweep_data\<close>, for a recognised source and a sweep that
  has series: when the loop reaches a retained series without an earlier failure, a
  response-bearing series after an earlier retained one fails with "Found multiple
  response TimeSeries", a stimulus-bearing series after an earlier retained one with
  "Found multiple stimulus TimeSeries", and a series of any other class with
  "Unexpected TimeSeries".  When the loop ends, a missing stimulus and then a missing
  response are failures.  When the call returns, exactly one retained series is
  stimulus-bearing, exactly one is response-bearing, there is no other retained
  series, and the two arrays have the same length.
\<close>

theorem nwbx_series_classification:
  assumes src: "src = getRawDataSourceType (experiment_description nwb)"
    and known: "\<not> unknown src"
    and series: "get_series (sweep_table nwb) n = Some series"
  shows
    "(\<forall>pre s post st.
        series = pre @ s # post \<and> series_loop src (None, None) pre = Inr st \<and> retained src s \<longrightarrow>
          (response_bearing s \<and> (\<exists>s1 \<in> set pre. retained src s1 \<and> response_bearing s1) \<longrightarrow>
             nwbx_get_sweep_data nwb n =
               Inl (ValueError ''Found multiple response TimeSeries in NWB file for sweep number {}.'')) \<and>
          (stimulus_bearing s \<and> (\<exists>s1 \<in> set pre. retained src s1 \<and> stimulus_bearing s1) \<longrightarrow>
             nwbx_get_sweep_data nwb n =
               Inl (ValueError ''Found multiple stimulus TimeSeries in NWB file for sweep number {}.'')) \<and>
          (\<not> response_bearing s \<and> \<not> stimulus_bearing s \<longrightarrow>
             nwbx_get_sweep_data nwb n = Inl (ValueError ''Unexpected TimeSeries {}.''))) \<and>
     (\<forall>st. series_loop src (None, None) series = Inr st \<longrightarrow>
        ((\<forall>s \<in> set series. retained src s \<longrightarrow> \<not> stimulus_bearing s) \<longrightarrow>
           nwbx_get_sweep_data nwb n =
             Inl (ValueError ''Could not find one stimulus TimeSeries for sweep number {}.'')) \<and>
        ((\<exists>s \<in> set series. retained src s \<and> stimulus_bearing s) \<and>
         (\<forall>s \<in> set series. retained src s \<longrightarrow> \<not> response_bearing s) \<longrightarrow>
           nwbx_get_sweep_data nwb n =
             Inl (ValueError ''Could not find one response TimeSeries for sweep number {}.''))) \<and>
     (\<forall>r. nwbx_get_sweep_data nwb n = Inr r \<longrightarrow>
        length (filter stimulus_bearing (filter (retained src) series)) = 1 \<and>
        length (filter response_bearing (filter (retained src) series)) = 1 \<and>
        (\<forall>s \<in> set series. retained src s \<longrightarrow> stimulus_bearing s \<or> response_bearing s) \<and>
        length (stimulus r) = length (response r))"
proof -
  note unfold = nwbx_unfold [OF src known series]
  have dup_response: "nwbx_get_sweep_data nwb n =
      Inl (ValueError ''Found multiple response TimeSeries in NWB file for sweep number {}.'')"
    if split: "series = pre @ s # post" and pre: "series_loop src (None, None) pre = Inr st"
      and s: "retained src s" "response_bearing s"
      and first: "\<exists>s1 \<in> set pre. retained src s1 \<and> response_bearing s1"
    for pre s post st
  proof -
    obtain resp stim where st: "st = (resp, stim)" by (cases st)
    from series_loop_response_found [OF pre [unfolded st]] first have "resp \<noteq> None" by simp
    from series_step_duplicate_response [OF s this]
    have "series_step src st s =
        Inl (ValueError ''Found multiple response TimeSeries in NWB file for sweep number {}.'')"
      by (simp add: st)
    from nwbx_step_error [OF src known series [unfolded split] pre this] show ?thesis .
  qed
  have dup_stimulus: "nwbx_get_sweep_data nwb n =
      Inl (ValueError ''Found multiple stimulus TimeSeries in NWB file for sweep number {}.'')"
    if split: "series = pre @ s # post" and pre: "series_loop src (None, None) pre = Inr st"
      and s: "retained src s" "stimulus_bearing s"
      and first: "\<exists>s1 \<in> set pre. retained src s1 \<and> stimulus_bearing s1"
    for pre s post st
  proof -
    obtain resp stim where st: "st = (resp, stim)" by (cases st)
    from series_loop_stimulus_found [OF pre [unfolded st]] first have "stim \<noteq> None" by simp
    from series_step_duplicate_stimulus [OF s this]
    have "series_step src st s =
        Inl (ValueError ''Found multiple stimulus TimeSeries in NWB file for sweep number {}.'')"
      by (simp add: st)
    from nwbx_step_error [OF src known series [unfolded split] pre this] show ?thesis .
  qed
  have unexpected: "nwbx_get_sweep_data nwb n = Inl (ValueError ''Unexpected TimeSeries {}.'')"
    if split: "series = pre @ s # post" and pre: "series_loop src (None, None) pre = Inr st"
      and s: "retained src s" "\<not> response_bearing s" "\<not> stimulus_bearing s"
    for pre s post st
    using nwbx_step_error [OF src known series [unfolded split] pre series_step_unexpected [OF s]] .
  have no_stimulus: "nwbx_get_sweep_data nwb n =
      Inl (ValueError ''Could not find one stimulus TimeSeries for sweep number {}.'')"
    if loop: "series_loop src (None, None) series = Inr st"
      and none: "\<forall>s \<in> set series. retained src s \<longrightarrow> \<not> stimulus_bearing s"
    for st
  proof -
    obtain resp stim where st: "st = (resp, stim)" by (cases st)
    from series_loop_stimulus_found [OF loop [unfolded st]] none have "stim = None" by blast
    with loop st show ?thesis by (simp add: unfold)
  qed
  have no_response: "nwbx_get_sweep_data nwb n =
      Inl (ValueError ''Could not find one response TimeSeries for sweep number {}.'')"
    if loop: "series_loop src (None, None) series = Inr st"
      and some: "\<exists>s \<in> set series. retained src s \<and> stimulus_bearing s"
      and none: "\<forall>s \<in> set series. retained src s \<longrightarrow> \<not> response_bearing s"
    for st
  proof -
    obtain resp stim where st: "st = (resp, stim)" by (cases st)
    from series_loop_stimulus_found [OF loop [unfolded st]] some have "stim \<noteq> None" by blast
    then obtain v where stim: "stim = Some v" by blast
    from series_loop_response_found [OF loop [unfolded st]] none have "resp = None" by blast
    with loop st stim show ?thesis by (cases v) (simp add: unfold)
  qed
  have success: "length (filter stimulus_bearing (filter (retained src) series)) = 1 \<and>
        length (filter response_bearing (filter (retained src) series)) = 1 \<and>
        (\<forall>s \<in> set series. retained src s \<longrightarrow> stimulus_bearing s \<or> response_bearing s) \<and>
        length (stimulus r) = length (response r)"
    if ok: "nwbx_get_sweep_data nwb n = Inr r" for r
  proof -
    from nwbx_success [OF ok src] series obtain resp where
      loop: "series_loop src (None, None) series =
             Inr (Some resp, Some (stimulus r, stimulus_unit r, sampling_rate r, index_range r))"
      and len: "length (stimulus r) = length (response r)"
      by auto
    from series_loop_stimulus_count [OF loop]
    have 1: "length (filter stimulus_bearing (filter (retained src) series)) = 1" by simp
    from series_loop_response_count [OF loop]
    have 2: "length (filter response_bearing (filter (retained src) series)) = 1" by simp
    have 3: "\<forall>s \<in> set series. retained src s \<longrightarrow> stimulus_bearing s \<or> response_bearing s"
      using series_loop_kinds [OF loop] by blast
    from 1 2 3 len show ?thesis by simp
  qed
  have A: "\<forall>pre s post st.
        series = pre @ s # post \<and> series_loop src (None, None) pre = Inr st \<and> retained src s \<longrightarrow>
          (response_bearing s \<and> (\<exists>s1 \<in> set pre. retained src s1 \<and> response_bearing s1) \<longrightarrow>
             nwbx_get_sweep_data nwb n =
               Inl (ValueError ''Found multiple response TimeSeries in NWB file for sweep number {}.'')) \<and>
          (stimulus_bearing s \<and> (\<exists>s1 \<in> set pre. retained src s1 \<and> stimulus_bearing s1) \<longrightarrow>
             nwbx_get_sweep_data nwb n =
               Inl (ValueError ''Found multiple stimulus TimeSeries in NWB file for sweep number {}.'')) \<and>
          (\<not> response_bearing s \<and> \<not> stimulus_bearing s \<longrightarrow>
             nwbx_get_sweep_data nwb n = Inl (ValueError ''Unexpected TimeSeries {}.''))"
  proof (intro allI impI, elim conjE)
    fix pre s post st
    assume h: "series = pre @ s # post" "series_loop src (None, None) pre = Inr st" "retained src s"
    show "(response_bearing s \<and> (\<exists>s1 \<in> set pre. retained src s1 \<and> response_bearing s1) \<longrightarrow>
             nwbx_get_sweep_data nwb n =
               Inl (ValueError ''Found multiple response TimeSeries in NWB file for sweep number {}.'')) \<and>
          (stimulus_bearing s \<and> (\<exists>s1 \<in> set pre. retained src s1 \<and> stimulus_bearing s1) \<longrightarrow>
             nwbx_get_sweep_data nwb n =
               Inl (ValueError ''Found multiple stimulus TimeSeries in NWB file for sweep number {}.'')) \<and>
          (\<not> response_bearing s \<and> \<not> stimulus_bearing s \<longrightarrow>
             nwbx_get_sweep_data nwb n = Inl (ValueError ''Unexpected TimeSeries {}.''))"
      using dup_response [OF h] dup_stimulus [OF h] unexpected [OF h] by simp
  qed
  have B: "\<forall>st. series_loop src (None, None) series = Inr st \<longrightarrow>
        ((\<forall>s \<in> set series. retained src s \<longrightarrow> \<not> stimulus_bearing s) \<longrightarrow>
           nwbx_get_sweep_data nwb n =
             Inl (ValueError ''Could not find one stimulus TimeSeries for sweep number {}.'')) \<and>
        ((\<exists>s \<in> set series. retained src s \<and> stimulus_bearing s) \<and>
         (\<forall>s \<in> set series. retained src s \<longrightarrow> \<not> response_bearing s) \<longrightarrow>
           nwbx_get_sweep_data nwb n =
             Inl (ValueError ''Could not find one response TimeSeries for sweep number {}.''))"
  proof (intro allI impI)
    fix st
    assume h: "series_loop src (None, None) series = Inr st"
    show "((\<forall>s \<in> set series. retained src s \<longrightarrow> \<not> stimulus_bearing s) \<longrightarrow>
           nwbx_get_sweep_data nwb n =
             Inl (ValueError ''Could not find one stimulus TimeSeries for sweep number {}.'')) \<and>
        ((\<exists>s \<in> set series. retained src s \<and> stimulus_bearing s) \<and>
         (\<forall>s \<in> set series. retained src s \<longrightarrow> \<not> response_bearing s) \<longrightarrow>
           nwbx_get_sweep_data nwb n =
             Inl (ValueError ''Could not find one response TimeSeries for sweep number {}.''))"
      using no_stimulus [OF h] no_response [OF h] by simp
  qed
  from success have C: "\<forall>r. nwbx_get_sweep_data nwb n = Inr r \<longrightarrow>
        length (filter stimulus_bearing (filter (retained src) series)) = 1 \<and>
        length (filter response_bearing (filter (retained src) series)) = 1 \<and>
        (\<forall>s \<in> set series. retained src s \<longrightarrow> stimulus_bearing s \<or> response_bearing s) \<and>
        length (stimulus r) = length (response r)"
    by (intro allI impI)
  from A B C show ?thesis by (intro conjI)
qed


theorem nwbx_series_classification_witness:
  "get_series (sweep_table (clampex_file [sample_response_series, sample_stimulus_series, sample_response_series])) 1 =
     Some ([sample_response_series, sample_stimulus_series] @ sample_response_series # []) \<and>
   retained (getRawDataSourceType ''Clampex 10.7'') sample_response_series \<and>
   response_bearing sample_response_series \<and>
   nwbx_get_sweep_data (clampex_file [sample_response_series, sample_stimulus_series, sample_response_series]) 1 =
     Inl (ValueError ''Found multiple response TimeSeries in NWB file for sweep number {}.'') \<and>
   nwbx_get_sweep_data (clampex_file [sample_stimulus_series, other_series]) 1 =
     Inl (ValueError ''Unexpected TimeSeries {}.'') \<and>
   nwbx_get_sweep_data (clampex_file [sample_response_series, feedback_series]) 1 =
     Inl (ValueError ''Could not find one stimulus TimeSeries for sweep number {}.'') \<and>
   nwbx_get_sweep_data (clampex_file [sample_response_series, sample_stimulus_series, feedback_series]) 1 =
     Inr \<lparr>stimulus = [3, 6, 9], response = [8, 10, 12], stimulus_unit = ''Amps'',
          index_range = (0, 2), sampling_rate = 20000\<rparr> \<and>
   length (filter stimulus_bearing (filter (retained (getRawDataSourceType ''Clampex 10.7''))
     [sample_response_series, sample_stimulus_series, feedback_series])) = 1 \<and>
   length (filter response_bearing (filter (retained (getRawDataSourceType ''Clampex 10.7''))
     [sample_response_series, sample_stimulus_series, feedback_series])) = 1"
proof -
  let ?src = "getRawDataSourceType ''Clampex 10.7''"
  let ?dup = "clampex_file [sample_response_series, sample_stimulus_series, sample_response_series]"
  let ?other = "clampex_file [sample_stimulus_series, other_series]"
  let ?lone = "clampex_file [sample_response_series, feedback_series]"
  let ?good = "clampex_file [sample_response_series, sample_stimulus_series, feedback_series]"
  have src: "?src = getRawDataSourceType (experiment_description (clampex_file ss))" for ss
    by (simp add: clampex_file_def)
  have abf: "abf ?src" and known: "\<not> unknown ?src"
    by (simp_all add: getRawDataSourceType_def startswith_def)
  have g: "get_series (sweep_table (clampex_file ss)) 1 = Some ss" if "ss \<noteq> []" for ss
    using that by (simp add: get_series_def clampex_file_def comp_def)
  have gd: "get_series (sweep_table ?dup) 1 =
      Some ([sample_response_series, sample_stimulus_series] @ sample_response_series # [])"
    using g [of "[sample_response_series, sample_stimulus_series, sample_response_series]"] by simp
  have go: "get_series (sweep_table ?other) 1 = Some ([sample_stimulus_series] @ other_series # [])"
    using g [of "[sample_stimulus_series, other_series]"] by simp
  have gl: "get_series (sweep_table ?lone) 1 = Some [sample_response_series, feedback_series]"
    using g [of "[sample_response_series, feedback_series]"] by simp
  have gg: "get_series (sweep_table ?good) 1 =
      Some [sample_response_series, sample_stimulus_series, feedback_series]"
    using g [of "[sample_response_series, sample_stimulus_series, feedback_series]"] by simp
  have pre: "series_loop ?src (None, None) [sample_response_series, sample_stimulus_series] =
      Inr (Some [8, 10, 12], Some ([3, 6, 9], ''Amps'', 20000, (0, 2)))"
    by (simp add: eval_nwbx)
  have pre_other: "series_loop ?src (None, None) [sample_stimulus_series] =
      Inr (None, Some ([3, 6, 9], ''Amps'', 20000, (0, 2)))"
    by (simp add: eval_nwbx)
  have loop_lone: "series_loop ?src (None, None) [sample_response_series, feedback_series] =
      Inr (Some [8, 10, 12], None)"
    by (simp add: eval_nwbx)
  have ret: "retained ?src sample_response_series"
    using abf by (simp add: retained_def sample_response_series_def)
  have rb: "response_bearing sample_response_series"
    by (simp add: response_bearing_def sample_response_series_def)
  have first: "\<exists>s1 \<in> set [sample_response_series, sample_stimulus_series].
      retained ?src s1 \<and> response_bearing s1"
    using ret rb by simp
  have ret_other: "retained ?src other_series"
    using abf by (simp add: retained_def other_series_def sample_response_series_def)
  have kind_other: "\<not> response_bearing other_series \<and> \<not> stimulus_bearing other_series"
    by (simp add: response_bearing_def stimulus_bearing_def other_series_def)
  have none_lone: "\<forall>s \<in> set [sample_response_series, feedback_series].
      retained ?src s \<longrightarrow> \<not> stimulus_bearing s"
    by (simp add: stimulus_bearing_def sample_response_series_def feedback_series_def)
  have ok: "nwbx_get_sweep_data ?good 1 =
     Inr \<lparr>stimulus = [3, 6, 9], response = [8, 10, 12], stimulus_unit = ''Amps'',
          index_range = (0, 2), sampling_rate = 20000\<rparr>"
    by (simp add: eval_nwbx)
  from nwbx_series_classification [OF src known gd] pre ret rb first
  have dup: "nwbx_get_sweep_data ?dup 1 =
     Inl (ValueError ''Found multiple response TimeSeries in NWB file for sweep number {}.'')"
    by blast
  from nwbx_series_classification [OF src known go] pre_other ret_other kind_other
  have other: "nwbx_get_sweep_data ?other 1 = Inl (ValueError ''Unexpected TimeSeries {}.'')"
    by blast
  from nwbx_series_classification [OF src known gl] loop_lone none_lone
  have lone: "nwbx_get_sweep_data ?lone 1 =
     Inl (ValueError ''Could not find one stimulus TimeSeries for sweep number {}.'')"
    by blast
  from nwbx_series_classification [OF src known gg] ok
  have counts: "length (filter stimulus_bearing (filter (retained ?src)
       [sample_response_series, sample_stimulus_series, feedback_series])) = 1 \<and>
     length (filter response_bearing (filter (retained ?src)
       [sample_response_series, sample_stimulus_series, feedback_series])) = 1"
    by blast
  from gd ret rb dup other lone ok counts show ?thesis by simp
qed

section \<open>The raw acquisition reader\<close>

lemma mies_unfold:
  assumes "getitem (acquisition_timeseries f) (''data_'' @ fmt_05d n @ ''_AD0'') = Inr sweep_response"
    and "getitem (stimulus_presentation f) (''data_'' @ fmt_05d n @ ''_DA0'') = Inr sweep_stimulus"
  shows "mies_get_sweep_data get_experiment_epoch get_sweep_epoch f n =
     bindE (case attrs_unit sweep_stimulus of
              Some unit \<Rightarrow>
                if startswith unit ''A'' then Inr ''Amps''
                else if startswith unit ''V'' then Inr ''Volts''
                else Inl (AssertionError ''Stimulus time series unit not recognized'')
            | None \<Rightarrow> Inr ''Unknown'') (\<lambda>unit_str.
     bindE (if py_in ''CurrentClampSeries'' (ancestry sweep_response)
            then get_experiment_epoch (dvalue sweep_stimulus) (dvalue (sw_data sweep_response))
                   (sw_rate sweep_response)
            else if py_in ''VoltageClampSeries'' (ancestry sweep_response)
            then get_sweep_epoch (dvalue (sw_data sweep_response))
            else Inl (ValueError ''Unknown Clamp Mode'')) (\<lambda>index_range1.
     Inr \<lparr>stimulus = dvalue sweep_stimulus,
          response = dvalue (sw_data sweep_response),
          stimulus_unit = unit_str,
          index_range = index_range1,
          sampling_rate = sw_rate sweep_response\<rparr>))"
  using assms by (simp add: mies_get_sweep_data_def Let_def)

lemma mies_success:
  assumes ok: "mies_get_sweep_data get_experiment_epoch get_sweep_epoch f n = Inr r"
    and a: "getitem (acquisition_timeseries f) (''data_'' @ fmt_05d n @ ''_AD0'') = Inr sweep_response"
    and d: "getitem (stimulus_presentation f) (''data_'' @ fmt_05d n @ ''_DA0'') = Inr sweep_stimulus"
  shows "stimulus r = dvalue sweep_stimulus \<and> response r = dvalue (sw_data sweep_response)"
  using ok unfolding mies_unfold [OF a d]
  by (auto dest!: bindE_Inr_D)

lemma mies_success_range:
  assumes ok: "mies_get_sweep_data get_experiment_epoch get_sweep_epoch f n = Inr r"
    and a: "getitem (acquisition_timeseries f) (''data_'' @ fmt_05d n @ ''_AD0'') = Inr sweep_response"
    and d: "getitem (stimulus_presentation f) (''data_'' @ fmt_05d n @ ''_DA0'') = Inr sweep_stimulus"
  shows "if py_in ''CurrentClampSeries'' (ancestry sweep_response)
         then get_experiment_epoch (dvalue sweep_stimulus) (dvalue (sw_data sweep_response))
                (sw_rate sweep_response) = Inr (index_range r)
         else py_in ''VoltageClampSeries'' (ancestry sweep_response) \<and>
              get_sweep_epoch (dvalue (sw_data sweep_response)) = Inr (index_range r)"
proof -
  from ok [unfolded mies_unfold [OF a d]] obtain us ir where
    disp: "(if py_in ''CurrentClampSeries'' (ancestry sweep_response)
            then get_experiment_epoch (dvalue sweep_stimulus) (dvalue (sw_data sweep_response))
                   (sw_rate sweep_response)
            else if py_in ''VoltageClampSeries'' (ancestry sweep_response)
            then get_sweep_epoch (dvalue (sw_data sweep_response))
            else Inl (ValueError ''Unknown Clamp Mode'')) = Inr ir"
    and r: "r = \<lparr>stimulus = dvalue sweep_stimulus,
          response = dvalue (sw_data sweep_response),
          stimulus_unit = us,
          index_range = ir,
          sampling_rate = sw_rate sweep_response\<rparr>"
    by (auto dest!: bindE_Inr_D)
  from r have "index_range r = ir" by simp
  with disp show ?thesis by (simp split: if_splits)
qed

text \<open>
  Claim C7.  \<^verbatim>\<open>NwbMiesReader.get_sweep_data\<close> computes the index range from the ancestry
  of the response series: if it contains \<^verbatim>\<open>CurrentClampSeries\<close>, by the experiment-epoch
  routine applied to the stimulus, the response and the sampling rate; otherwise, if it
  contains \<^verbatim>\<open>VoltageClampSeries\<close>, by the sweep-epoch routine applied to the response alone;
  otherwise the call fails with \<^verbatim>\<open>ValueError("Unknown Clamp Mode")\<close>.  The two routines
  are arbitrary; the sweep's two entries exist and the unit of the stimulus is absent
  or recognised.
\<close>

theorem mies_index_range_dispatch:
  assumes "getitem (acquisition_timeseries f) (''data_'' @ fmt_05d n @ ''_AD0'') = Inr sweep_response"
    and "getitem (stimulus_presentation f) (''data_'' @ fmt_05d n @ ''_DA0'') = Inr sweep_stimulus"
    and "attrs_unit sweep_stimulus = None \<or>
         (\<exists>u. attrs_unit sweep_stimulus = Some u \<and> (startswith u ''A'' \<or> startswith u ''V''))"
    and "us = (case attrs_unit sweep_stimulus of
                 None \<Rightarrow> ''Unknown''
               | Some u \<Rightarrow> if startswith u ''A'' then ''Amps'' else ''Volts'')"
    and "finish = (\<lambda>ir. Inr \<lparr>stimulus = dvalue sweep_stimulus,
                              response = dvalue (sw_data sweep_response),
                              stimulus_unit = us,
                              index_range = ir,
                              sampling_rate = sw_rate sweep_response\<rparr>)"
  shows "(py_in ''CurrentClampSeries'' (ancestry sweep_response) \<longrightarrow>
            mies_get_sweep_data get_experiment_epoch get_sweep_epoch f n =
              bindE (get_experiment_epoch (dvalue sweep_stimulus) (dvalue (sw_data sweep_response))
                       (sw_rate sweep_response)) finish) \<and>
         (\<not> py_in ''CurrentClampSeries'' (ancestry sweep_response) \<and>
          py_in ''VoltageClampSeries'' (ancestry sweep_response) \<longrightarrow>
            mies_get_sweep_data get_experiment_epoch get_sweep_epoch f n =
              bindE (get_sweep_epoch (dvalue (sw_data sweep_response))) finish) \<and>
         (\<not> py_in ''CurrentClampSeries'' (ancestry sweep_response) \<and>
          \<not> py_in ''VoltageClampSeries'' (ancestry sweep_response) \<longrightarrow>
            mies_get_sweep_data get_experiment_epoch get_sweep_epoch f n =
              Inl (ValueError ''Unknown Clamp Mode''))"
proof -
  have unit: "(case attrs_unit sweep_stimulus of
              Some unit \<Rightarrow>
                if startswith unit ''A'' then Inr ''Amps''
                else if startswith unit ''V'' then Inr ''Volts''
                else Inl (AssertionError ''Stimulus time series unit not recognized'')
            | None \<Rightarrow> Inr ''Unknown'') = Inr us"
    using assms(3,4) by (auto split: option.splits)
  show ?thesis
    unfolding mies_unfold [OF assms(1,2)] unit assms(5) by simp
qed

theorem mies_index_range_dispatch_witness:
  "mies_get_sweep_data sample_experiment_epoch sample_sweep_epoch
     (mies_file (StrArray [''TimeSeries'', ''PatchClampSeries'', ''CurrentClampSeries''])) 7 =
     Inr \<lparr>stimulus = [1, 2, 3], response = [4, 5, 6], stimulus_unit = ''Amps'',
          index_range = (1, 2), sampling_rate = 200000\<rparr> \<and>
   sample_experiment_epoch [1, 2, 3] [4, 5, 6] 200000 = Inr (1, 2) \<and>
   mies_get_sweep_data sample_experiment_epoch sample_sweep_epoch
     (mies_file (ScalarStr ''TimeSeries;PatchClampSeries;VoltageClampSeries'')) 7 =
     Inr \<lparr>stimulus = [1, 2, 3], response = [4, 5, 6], stimulus_unit = ''Amps'',
          index_range = (0, 2), sampling_rate = 200000\<rparr> \<and>
   sample_sweep_epoch [4, 5, 6] = Inr (0, 2) \<and>
   mies_get_sweep_data sample_experiment_epoch sample_sweep_epoch
     (mies_file (StrArray [''TimeSeries'', ''PatchClampSeries''])) 7 =
     Inl (ValueError ''Unknown Clamp Mode'')"
proof -
  let ?a = "\<lambda>anc. \<lparr>sw_data = sample_response_data, sw_rate = 200000, ancestry = anc,
           text_members = [(''comment'', ScalarStr ''no description'')]\<rparr>"
  have acq: "getitem (acquisition_timeseries (mies_file anc)) (''data_'' @ fmt_05d 7 @ ''_AD0'') =
      Inr (?a anc)" for anc
    by (simp add: mies_file_def getitem_def fmt_05d_def digits_of.simps Let_def eval_nat_numeral)
  have stim: "getitem (stimulus_presentation (mies_file anc)) (''data_'' @ fmt_05d 7 @ ''_DA0'') =
      Inr sample_stimulus_data" for anc
    by (simp add: mies_file_def getitem_def fmt_05d_def digits_of.simps Let_def eval_nat_numeral)
  have unit: "attrs_unit sample_stimulus_data = None \<or>
      (\<exists>u. attrs_unit sample_stimulus_data = Some u \<and> (startswith u ''A'' \<or> startswith u ''V''))"
    by (simp add: sample_stimulus_data_def startswith_def)
  have c: "py_in ''CurrentClampSeries'' (StrArray [''TimeSeries'', ''PatchClampSeries'', ''CurrentClampSeries''])"
    by (simp add: py_in_def)
  have v: "\<not> py_in ''CurrentClampSeries'' (ScalarStr ''TimeSeries;PatchClampSeries;VoltageClampSeries'') \<and>
      py_in ''VoltageClampSeries'' (ScalarStr ''TimeSeries;PatchClampSeries;VoltageClampSeries'')"
    by (simp add: py_in_def startswith_def)
  have n: "\<not> py_in ''CurrentClampSeries'' (StrArray [''TimeSeries'', ''PatchClampSeries'']) \<and>
      \<not> py_in ''VoltageClampSeries'' (StrArray [''TimeSeries'', ''PatchClampSeries''])"
    by (simp add: py_in_def)
  note th = mies_index_range_dispatch
      [where get_experiment_epoch = sample_experiment_epoch and get_sweep_epoch = sample_sweep_epoch]
  from th [OF acq [of "StrArray [''TimeSeries'', ''PatchClampSeries'', ''CurrentClampSeries'']"]
              stim unit refl refl] c
       th [OF acq [of "ScalarStr ''TimeSeries;PatchClampSeries;VoltageClampSeries''"]
              stim unit refl refl] v
       th [OF acq [of "StrArray [''TimeSeries'', ''PatchClampSeries'']"] stim unit refl refl] n
  show ?thesis
    by (simp add: sample_experiment_epoch_def sample_sweep_epoch_def sample_stimulus_data_def
          sample_response_data_def startswith_def)
qed

section \<open>The stimulus code\<close>

text \<open>
  Claim C10.  In both NWB 1 readers, \<^verbatim>\<open>get_stim_code\<close> on a sweep entry that has no
  stimulus-description member fails with \<^verbatim>\<open>UnboundLocalError\<close>: \<^verbatim>\<open>stim_code\<close> is returned
  without ever being bound; no default and no \<^verbatim>\<open>None\<close> is returned.
\<close>

theorem get_stim_code_without_description:
  assumes "getitem (acquisition_timeseries f) sweep_name = Inr sweep_ts"
  shows "(map_of (text_members sweep_ts) ''aibs_stimulus_description'' = None \<longrightarrow>
            pipeline_get_stim_code f sweep_name = Inl UnboundLocalError) \<and>
         (map_of (text_members sweep_ts) ''stimulus_description'' = None \<longrightarrow>
            mies_get_stim_code f sweep_name = Inl UnboundLocalError)"
  using assms by (simp add: pipeline_get_stim_code_def mies_get_stim_code_def Let_def)

theorem get_stim_code_without_description_witness:
  "getitem (acquisition_timeseries (mies_file (StrArray []))) ''data_00007_AD0'' =
     Inr \<lparr>sw_data = sample_response_data, sw_rate = 200000, ancestry = StrArray [],
          text_members = [(''comment'', ScalarStr ''no description'')]\<rparr> \<and>
   map_of [(''comment'', ScalarStr ''no description'')] ''aibs_stimulus_description'' = None \<and>
   map_of [(''comment'', ScalarStr ''no description'')] ''stimulus_description'' = None \<and>
   pipeline_get_stim_code (mies_file (StrArray [])) ''data_00007_AD0'' = Inl UnboundLocalError \<and>
   mies_get_stim_code (mies_file (StrArray [])) ''data_00007_AD0'' = Inl UnboundLocalError"
proof -
  have g: "getitem (acquisition_timeseries (mies_file (StrArray []))) ''data_00007_AD0'' =
     Inr \<lparr>sw_data = sample_response_data, sw_rate = 200000, ancestry = StrArray [],
          text_members = [(''comment'', ScalarStr ''no description'')]\<rparr>"
    by (simp add: mies_file_def getitem_def)
  from get_stim_code_without_description [OF g] g show ?thesis by simp
qed

section \<open>The version detector\<close>





section \<open>All readers: lengths and index range\<close>

text \<open>
  Claim C3, amended.  When \<^verbatim>\<open>NwbXReader.get_sweep_data\<close> returns, the stimulus and the
  response have the same length (it asserts so).  The two NWB 1 readers make no such
  check: the post-processed reader returns arrays of the lengths of the two stored
  datasets, the raw acquisition reader returns the two stored arrays themselves, so
  the lengths are equal exactly when the stored ones are.
\<close>

theorem returned_lengths:
  "(\<forall>r. nwbx_get_sweep_data nwb n = Inr r \<longrightarrow> length (stimulus r) = length (response r)) \<and>
   (\<forall>r swp. pipeline_get_sweep_data f n = Inr r \<and>
             getitem (epochs f) (''Sweep_'' @ fmt_d n) = Inr swp \<longrightarrow>
      length (stimulus r) = length (dvalue (ts_data (timeseries (ep_stimulus swp)))) \<and>
      length (response r) = length (dvalue (ts_data (timeseries (ep_response swp))))) \<and>
   (\<forall>r a d. mies_get_sweep_data get_experiment_epoch get_sweep_epoch f n = Inr r \<and>
             getitem (acquisition_timeseries f) (''data_'' @ fmt_05d n @ ''_AD0'') = Inr a \<and>
             getitem (stimulus_presentation f) (''data_'' @ fmt_05d n @ ''_DA0'') = Inr d \<longrightarrow>
      stimulus r = dvalue d \<and> response r = dvalue (sw_data a))"
proof -
  have 1: "length (stimulus r) = length (response r)" if "nwbx_get_sweep_data nwb n = Inr r" for r
    using nwbx_success [OF that refl] by auto
  have 2: "length (stimulus r) = length (dvalue (ts_data (timeseries (ep_stimulus swp)))) \<and>
      length (response r) = length (dvalue (ts_data (timeseries (ep_response swp))))"
    if ok: "pipeline_get_sweep_data f n = Inr r"
      and swp: "getitem (epochs f) (''Sweep_'' @ fmt_d n) = Inr swp" for r swp
  proof -
    from ok obtain major minor where v: "get_pipeline_version f = Inr (major, minor)"
      using pipeline_success_version by blast
    from pipeline_success [OF ok swp v refl refl refl refl] show ?thesis by auto
  qed
  have 3: "stimulus r = dvalue d \<and> response r = dvalue (sw_data a)"
    if "mies_get_sweep_data get_experiment_epoch get_sweep_epoch f n = Inr r"
      and "getitem (acquisition_timeseries f) (''data_'' @ fmt_05d n @ ''_AD0'') = Inr a"
      and "getitem (stimulus_presentation f) (''data_'' @ fmt_05d n @ ''_DA0'') = Inr d" for r a d
    using mies_success [OF that] .
  from 1 2 3 show ?thesis by blast
qed

theorem returned_lengths_witness:
  "nwbx_get_sweep_data (clampex_file [sample_response_series, sample_stimulus_series, feedback_series]) 1 =
     Inr \<lparr>stimulus = [3, 6, 9], response = [8, 10, 12], stimulus_unit = ''Amps'',
          index_range = (0, 2), sampling_rate = 20000\<rparr> \<and>
   length [3, 6, 9 :: real] = length [8, 10, 12 :: real] \<and>
   length (stimulus (projr (pipeline_get_sweep_data ragged_file 7))) = length [1, 2 :: real] \<and>
   length (response (projr (pipeline_get_sweep_data ragged_file 7))) = length [4 :: real]"
proof -
  let ?nwb = "clampex_file [sample_response_series, sample_stimulus_series, feedback_series]"
  have x: "nwbx_get_sweep_data ?nwb 1 =
     Inr \<lparr>stimulus = [3, 6, 9], response = [8, 10, 12], stimulus_unit = ''Amps'',
          index_range = (0, 2), sampling_rate = 20000\<rparr>"
    by (simp add: eval_nwbx)
  have p: "pipeline_get_sweep_data ragged_file 7 =
     Inr \<lparr>stimulus = [1000000000000, 2000000000000], response = [4000],
          stimulus_unit = ''Amps'', index_range = (0, 1), sampling_rate = 200000\<rparr>"
    by (simp add: eval_pipeline eval_version eval_files ragged_file_def)
  have s: "getitem (epochs ragged_file) (''Sweep_'' @ fmt_d 7) =
      Inr (sample_epoch (Int32 0) (Int32 2) (sample_stimulus_data\<lparr>dvalue := [1, 2]\<rparr>)
                        (sample_response_data\<lparr>dvalue := [4]\<rparr>))"
    by (simp add: getitem_def fmt_d_def digits_of.simps eval_files ragged_file_def)
  from returned_lengths [where nwb = ?nwb and n = 1 and f = ragged_file] x p s
  show ?thesis by (simp add: eval_files)
qed

text \<open>The post-processed reader returns a sweep whose stimulus has two samples and
  whose response has one.\<close>

theorem lengths_differ_counterexample:
  "pipeline_get_sweep_data ragged_file 7 =
     Inr \<lparr>stimulus = [1000000000000, 2000000000000], response = [4000],
          stimulus_unit = ''Amps'', index_range = (0, 1), sampling_rate = 200000\<rparr> \<and>
   length (stimulus (projr (pipeline_get_sweep_data ragged_file 7))) \<noteq>
   length (response (projr (pipeline_get_sweep_data ragged_file 7)))"
proof -
  have "pipeline_get_sweep_data ragged_file 7 =
     Inr \<lparr>stimulus = [1000000000000, 2000000000000], response = [4000],
          stimulus_unit = ''Amps'', index_range = (0, 1), sampling_rate = 200000\<rparr>"
    by (simp add: eval_pipeline eval_version eval_files ragged_file_def)
  then show ?thesis by simp
qed


text \<open>
  Claim C4, amended.  When \<^verbatim>\<open>NwbXReader.get_sweep_data\<close> returns, the index range is
  \<open>(0, len(stimulus) - 1)\<close>, so that \<open>0 \<le> start \<le> end < len(stimulus)\<close> holds whenever
  the stimulus is not empty.  The post-processed reader returns the range stored for
  the experiment epoch, or for the full sweep when there is no experiment epoch (a
  range that starts at 0), and the raw acquisition reader returns what the epoch
  routine it calls returns; neither compares the range with the length of the arrays.
\<close>

theorem index_range_by_reader:
  "(\<forall>r. nwbx_get_sweep_data nwb n = Inr r \<longrightarrow>
      index_range r = (0, int (length (stimulus r)) - 1) \<and>
      (stimulus r \<noteq> [] \<longrightarrow>
         0 \<le> fst (index_range r) \<and> fst (index_range r) \<le> snd (index_range r) \<and>
         snd (index_range r) < int (length (stimulus r)))) \<and>
   (\<forall>r swp. pipeline_get_sweep_data f n = Inr r \<and>
             getitem (epochs f) (''Sweep_'' @ fmt_d n) = Inr swp \<longrightarrow>
      fst (stored_range (ep_stimulus swp)) = 0 \<and>
      index_range r =
        (case getitem (epochs f) (''Experiment_'' @ fmt_d n) of
           Inr ex \<Rightarrow> stored_range (ep_stimulus ex)
         | Inl e \<Rightarrow> stored_range (ep_stimulus swp))) \<and>
   (\<forall>r a d. mies_get_sweep_data get_experiment_epoch get_sweep_epoch f n = Inr r \<and>
             getitem (acquisition_timeseries f) (''data_'' @ fmt_05d n @ ''_AD0'') = Inr a \<and>
             getitem (stimulus_presentation f) (''data_'' @ fmt_05d n @ ''_DA0'') = Inr d \<longrightarrow>
      (if py_in ''CurrentClampSeries'' (ancestry a)
       then get_experiment_epoch (dvalue d) (dvalue (sw_data a)) (sw_rate a) = Inr (index_range r)
       else py_in ''VoltageClampSeries'' (ancestry a) \<and>
            get_sweep_epoch (dvalue (sw_data a)) = Inr (index_range r)))"
proof -
  have 1: "index_range r = (0, int (length (stimulus r)) - 1) \<and>
      (stimulus r \<noteq> [] \<longrightarrow>
         0 \<le> fst (index_range r) \<and> fst (index_range r) \<le> snd (index_range r) \<and>
         snd (index_range r) < int (length (stimulus r)))"
    if ok: "nwbx_get_sweep_data nwb n = Inr r" for r
  proof -
    from nwbx_success [OF ok refl] obtain series resp where
      l: "series_loop (getRawDataSourceType (experiment_description nwb)) (None, None) series =
            Inr (Some resp, Some (stimulus r, stimulus_unit r, sampling_rate r, index_range r))"
      by blast
    have "index_range r = (0, int (length (stimulus r)) - 1)"
      by (rule series_loop_index_range [OF l]) simp
    then show ?thesis by (cases "stimulus r") auto
  qed
  have 2: "fst (stored_range (ep_stimulus swp)) = 0 \<and>
      index_range r =
        (case getitem (epochs f) (''Experiment_'' @ fmt_d n) of
           Inr ex \<Rightarrow> stored_range (ep_stimulus ex)
         | Inl e \<Rightarrow> stored_range (ep_stimulus swp))"
    if ok: "pipeline_get_sweep_data f n = Inr r"
      and swp: "getitem (epochs f) (''Sweep_'' @ fmt_d n) = Inr swp" for r swp
  proof -
    from ok obtain major minor where v: "get_pipeline_version f = Inr (major, minor)"
      using pipeline_success_version by blast
    from pipeline_success [OF ok swp v refl refl refl refl] show ?thesis
      by (auto simp: stored_range_def)
  qed
  have 3: "if py_in ''CurrentClampSeries'' (ancestry a)
       then get_experiment_epoch (dvalue d) (dvalue (sw_data a)) (sw_rate a) = Inr (index_range r)
       else py_in ''VoltageClampSeries'' (ancestry a) \<and>
            get_sweep_epoch (dvalue (sw_data a)) = Inr (index_range r)"
    if "mies_get_sweep_data get_experiment_epoch get_sweep_epoch f n = Inr r"
      and "getitem (acquisition_timeseries f) (''data_'' @ fmt_05d n @ ''_AD0'') = Inr a"
      and "getitem (stimulus_presentation f) (''data_'' @ fmt_05d n @ ''_DA0'') = Inr d" for r a d
    using mies_success_range [OF that] .
  from 1 2 3 show ?thesis by blast
qed

theorem index_range_by_reader_witness:
  "nwbx_get_sweep_data (clampex_file [sample_response_series, sample_stimulus_series, feedback_series]) 1 =
     Inr \<lparr>stimulus = [3, 6, 9], response = [8, 10, 12], stimulus_unit = ''Amps'',
          index_range = (0, int (length [3, 6, 9 :: real]) - 1), sampling_rate = 20000\<rparr> \<and>
   [3, 6, 9 :: real] \<noteq> [] \<and> (0::int) \<le> 2 \<and> (2::int) < int (length [3, 6, 9 :: real]) \<and>
   getitem (epochs long_experiment_file) (''Experiment_'' @ fmt_d 7) =
     Inr (sample_epoch (Int32 2) (Int32 5) sample_stimulus_data sample_response_data) \<and>
   stored_range (ep_stimulus (sample_epoch (Int32 2) (Int32 5) sample_stimulus_data sample_response_data)) =
     (2, 6) \<and>
   index_range (projr (pipeline_get_sweep_data long_experiment_file 7)) = (2, 6)"
proof -
  let ?nwb = "clampex_file [sample_response_series, sample_stimulus_series, feedback_series]"
  have x: "nwbx_get_sweep_data ?nwb 1 =
     Inr \<lparr>stimulus = [3, 6, 9], response = [8, 10, 12], stimulus_unit = ''Amps'',
          index_range = (0, 2), sampling_rate = 20000\<rparr>"
    by (simp add: eval_nwbx)
  have p: "pipeline_get_sweep_data long_experiment_file 7 =
     Inr \<lparr>stimulus = [1000000000000, 2000000000000, 3000000000000], response = [4000, 5000, 6000],
          stimulus_unit = ''Amps'', index_range = (2, 6), sampling_rate = 200000\<rparr>"
    by (simp add: eval_pipeline eval_version eval_files long_experiment_file_def)
  have s: "getitem (epochs long_experiment_file) (''Sweep_'' @ fmt_d 7) =
      Inr (sample_epoch (Int32 0) (Int32 3) sample_stimulus_data sample_response_data)"
    by (simp add: getitem_def fmt_d_def digits_of.simps eval_files long_experiment_file_def)
  have e: "getitem (epochs long_experiment_file) (''Experiment_'' @ fmt_d 7) =
      Inr (sample_epoch (Int32 2) (Int32 5) sample_stimulus_data sample_response_data)"
    by (simp add: getitem_def fmt_d_def digits_of.simps eval_files long_experiment_file_def)
  have sr: "stored_range (ep_stimulus
      (sample_epoch (Int32 2) (Int32 5) sample_stimulus_data sample_response_data)) = (2, 6)"
    by (simp add: stored_range_def eval_files)
  from index_range_by_reader [where nwb = ?nwb and n = 1]
  have "index_range (projr (nwbx_get_sweep_data ?nwb 1)) =
      (0, int (length (stimulus (projr (nwbx_get_sweep_data ?nwb 1)))) - 1)"
    using x by simp
  moreover from index_range_by_reader [where f = long_experiment_file and n = 7] p s e sr
  have "index_range (projr (pipeline_get_sweep_data long_experiment_file 7)) = (2, 6)"
    by simp
  ultimately show ?thesis using x e sr by simp
qed

theorem index_range_counterexample:
  "pipeline_get_sweep_data long_experiment_file 7 =
     Inr \<lparr>stimulus = [1000000000000, 2000000000000, 3000000000000], response = [4000, 5000, 6000],
          stimulus_unit = ''Amps'', index_range = (2, 6), sampling_rate = 200000\<rparr> \<and>
   \<not> snd (index_range (projr (pipeline_get_sweep_data long_experiment_file 7)))
       < int (length (stimulus (projr (pipeline_get_sweep_data long_experiment_file 7)))) \<and>
   nwbx_get_sweep_data empty_series_file 1 =
     Inr \<lparr>stimulus = [], response = [], stimulus_unit = ''Amps'',
          index_range = (0, - 1), sampling_rate = 20000\<rparr> \<and>
   \<not> fst (index_range (projr (nwbx_get_sweep_data empty_series_file 1)))
       \<le> snd (index_range (projr (nwbx_get_sweep_data empty_series_file 1)))"
proof -
  have p: "pipeline_get_sweep_data long_experiment_file 7 =
     Inr \<lparr>stimulus = [1000000000000, 2000000000000, 3000000000000], response = [4000, 5000, 6000],
          stimulus_unit = ''Amps'', index_range = (2, 6), sampling_rate = 200000\<rparr>"
    by (simp add: eval_pipeline eval_version eval_files long_experiment_file_def)
  have x: "nwbx_get_sweep_data empty_series_file 1 =
     Inr \<lparr>stimulus = [], response = [], stimulus_unit = ''Amps'',
          index_range = (0, - 1), sampling_rate = 20000\<rparr>"
    by (simp add: eval_nwbx empty_series_file_def)
  from p x show ?thesis by simp
qed


end
